theory Spec2Isabelle
  imports Main "HOL-Library.Word"
begin

section \<open>Bytes, constants and errors\<close>

type_synonym byte = "8 word"
type_synonym bytes = "byte list"

text \<open>A DID (package identity) is a 20-byte address; the model keeps it as its bytes.\<close>

type_synonym DID = bytes

definition CDRootField :: string where "CDRootField = ''cd_root''"
definition DataRootField :: string where "DataRootField = ''data_root''"
definition DocumentTypeField :: string where "DocumentTypeField = ''document_type''"
definition SignaturesRootField :: string where "SignaturesRootField = ''signatures_root''"
definition SigningRootField :: string where "SigningRootField = ''signing_root''"
definition idSize :: nat where "idSize = 32"
definition nftByteCount :: nat where "nftByteCount = 52"
definition DRTreePrefix :: string where "DRTreePrefix = ''dr_tree''"
definition CDTreePrefix :: string where "CDTreePrefix = ''cd_tree''"
definition SigningTreePrefix :: string where "SigningTreePrefix = ''signing_tree''"
definition SignaturesTreePrefix :: string where "SignaturesTreePrefix = ''signatures_tree''"

text \<open>
  \<^verbatim>\<open>compactProperties\<close> of coredocument.go: a lookup in a fixed Go map; a key that
  is not in the map gives the nil slice.
\<close>

definition compactProperties :: "string \<Rightarrow> bytes" where
  "compactProperties key =
     (if key = CDRootField then [0, 0, 0, 7]
      else if key = DataRootField then [0, 0, 0, 5]
      else if key = DocumentTypeField then [0, 0, 0, 100]
      else if key = SignaturesRootField then [0, 0, 0, 6]
      else if key = SigningRootField then [0, 0, 0, 10]
      else if key = CDTreePrefix then [1, 0, 0, 0]
      else if key = SigningTreePrefix then [2, 0, 0, 0]
      else if key = SignaturesTreePrefix then [3, 0, 0, 0]
      else if key = DRTreePrefix then [4, 0, 0, 0]
      else [])"

text \<open>
  Every \<^verbatim>\<open>errors.New\<close> of the modelled sources is one constructor. \<open>Wrapped\<close> is
  \<^verbatim>\<open>errors.New("...: %v", err)\<close>; \<open>External\<close> is an error value handed back by a
  dependency that is not part of the modelled sources.
\<close>

datatype error =
    DocumentRootInvalid
  | SigningRootInvalid
  | DataRootInvalid
  | NoPropertiesInDataTree
  | NoPrefixInDataTreeProperty
  | PrefixTreeNotFound
  | RequesterHasNoAccess
  | AccessTokenRequestNil
  | InvalidAccessType
  | InvalidNFT
  | NFTNotFoundInDocument
  | NotOwnerOfNFT
  | DocumentNotFound
  | CyclicVersions
  | Wrapped string error
  | External string

section \<open>The protobuf data model\<close>

text \<open>
  The generated protobuf types (package coredocumentpb) are not among the sources; the
  records below carry the fields that the sources read and write, with the field lists
  of section 3 of the specification for the nested messages. A field name that two
  messages share, or that is also the name of a message, carries its message in the
  name: \<open>ReadRoles\<close> and \<open>ReadAction\<close> are \<^verbatim>\<open>Roles\<close> and \<^verbatim>\<open>Action\<close> of a read rule,
  \<open>RoleNfts\<close> is \<^verbatim>\<open>Nfts\<close> of a role, \<open>SignatureDataOf\<close> is \<^verbatim>\<open>SignatureData\<close> of the
  core document.
\<close>

record Signature =
  SignerId :: bytes
  PublicKey :: bytes
  SignatureBytes :: bytes
  SigTimestamp :: nat

record SignatureData =
  Signatures :: "Signature list"

record Role =
  RoleKey :: bytes
  Collaborators :: "bytes list"
  RoleNfts :: "bytes list"

datatype Action = ACTION_INVALID | ACTION_READ | ACTION_READ_SIGN

record ReadRule =
  ReadRoles :: "bytes list"
  ReadAction :: Action

datatype FieldMatchType = FIELD_MATCH_TYPE_INVALID | FIELD_MATCH_TYPE_EXACT | FIELD_MATCH_TYPE_PREFIX

datatype TransitionAction = TRANSITION_ACTION_INVALID | TRANSITION_ACTION_EDIT

record TransitionRule =
  TransitionRoles :: "bytes list"
  MatchType :: FieldMatchType
  Field :: bytes
  TransitionActionOf :: TransitionAction

record NFT =
  RegistryId :: bytes
  TokenId :: bytes

record AccessToken =
  Identifier :: bytes
  Granter :: bytes
  Grantee :: bytes
  RoleIdentifier :: bytes
  KeyIdentifier :: bytes
  TokenDocumentIdentifier :: bytes
  TokenSignature :: bytes

record DocumentSalt =
  SaltCompact :: bytes
  SaltValue :: bytes

record Any =
  TypeUrl :: string
  AnyValue :: bytes

text \<open>
  \<^verbatim>\<open>CoreDocument\<close> of coredocument.go wraps the protobuf message in a struct with the
  single field \<^verbatim>\<open>Document\<close>; the model uses the message itself. A nil pointer or nil
  slice that the code tests for is an \<open>option\<close>.
\<close>

record CoreDocument =
  DocumentIdentifier :: bytes
  PreviousVersion :: bytes
  CurrentVersion :: bytes
  NextVersion :: bytes
  CurrentPreimage :: bytes
  NextPreimage :: bytes
  PreviousRoot :: bytes
  DataRoot :: bytes
  SigningRoot :: bytes
  DocumentRoot :: bytes
  Roles :: "Role list"
  ReadRules :: "ReadRule list"
  TransitionRules :: "TransitionRule list"
  Nfts :: "NFT list"
  AccessTokens :: "AccessToken list"
  SignatureDataOf :: "SignatureData option"
  SignatureDataSalts :: "DocumentSalt list option"
  CoredocumentSalts :: "DocumentSalt list option"
  EmbeddedData :: "Any option"
  EmbeddedDataSalts :: "DocumentSalt list option"
  Author :: bytes
  Timestamp :: "nat option"

text \<open>The zero value of the message, which a Go composite literal starts from.\<close>

definition zeroCoreDocument :: CoreDocument where
  "zeroCoreDocument =
     \<lparr>DocumentIdentifier = [], PreviousVersion = [], CurrentVersion = [], NextVersion = [],
      CurrentPreimage = [], NextPreimage = [], PreviousRoot = [], DataRoot = [],
      SigningRoot = [], DocumentRoot = [], Roles = [], ReadRules = [], TransitionRules = [],
      Nfts = [], AccessTokens = [], SignatureDataOf = None, SignatureDataSalts = None,
      CoredocumentSalts = None, EmbeddedData = None, EmbeddedDataSalts = None,
      Author = [], Timestamp = None\<rparr>"

section \<open>The precise-proofs library and the other dependencies\<close>

text \<open>
  Package proofs (precise-proofs), the Go standard library and the packages identity,
  crypto and utils are not among the sources. The model takes what the sources call
  from them as parameters, collected in the record \<open>deps\<close>: \<open>'t\<close> is the library's
  \<^verbatim>\<open>DocumentTree\<close>, \<open>'w\<close> the state of the random source. A tree is a value here, so an
  operation that mutates the tree returns the new tree.
\<close>

record Property =
  ReadableName :: string
  Compact :: bytes

record LeafNode =
  LeafProperty :: Property
  LeafValue :: bytes
  LeafSalt :: bytes
  LeafHash :: bytes
  Hashed :: bool

record TreeOptions =
  CompactProperties :: bool
  EnableHashSorting :: bool
  ParentPrefix :: Property

record Proof =
  ProofProperty :: string
  ProofValue :: bytes
  ProofSalt :: bytes
  ProofHash :: bytes
  SortedHashes :: "bytes list"

datatype message = CoreDocumentMsg CoreDocument | SignatureDataMsg "SignatureData option"

record ('t, 'w) deps =
  NewDIDsFromStrings :: "string list \<Rightarrow> error + DID list"
  NewDIDFromBytes :: "bytes \<Rightarrow> DID"
  DIDString :: "DID \<Rightarrow> string"
  GenerateHashPair :: "nat \<Rightarrow> 'w \<Rightarrow> (bytes \<times> bytes \<times> error option) \<times> 'w"
  RandomSlice :: "nat \<Rightarrow> 'w \<Rightarrow> bytes \<times> 'w"
  ConvertToProtoSalts :: "DocumentSalt list \<Rightarrow> DocumentSalt list option"
  ConvertToProofSalts :: "DocumentSalt list option \<Rightarrow> DocumentSalt list"
  NewDocumentTree :: "TreeOptions \<Rightarrow> 't"
  AddLeaf :: "'t \<Rightarrow> LeafNode \<Rightarrow> error + 't"
  AddLeavesFromDocument :: "'t \<Rightarrow> message \<Rightarrow> error + 't"
  Generate :: "'t \<Rightarrow> error + 't"
  RootHash :: "'t \<Rightarrow> bytes"
  CreateProof :: "'t \<Rightarrow> string \<Rightarrow> error + Proof"
  PropertyOrder :: "'t \<Rightarrow> Property list"
  HashNode :: "LeafNode \<Rightarrow> error + LeafNode"

text \<open>
  \<^verbatim>\<open>NewLeafProperty\<close> and \<^verbatim>\<open>NewDefaultTreeWithPrefix\<close> (package documents). The
  latter receives the salts and does not hand them to the tree: the options it builds
  have no salts field.
\<close>

definition NewLeafProperty :: "string \<Rightarrow> bytes \<Rightarrow> Property" where
  "NewLeafProperty literal compact = \<lparr>ReadableName = literal, Compact = compact\<rparr>"

definition zeroProperty :: Property where
  "zeroProperty = \<lparr>ReadableName = [], Compact = []\<rparr>"

definition NewDefaultTreeWithPrefix ::
  "('t, 'w) deps \<Rightarrow> DocumentSalt list \<Rightarrow> string \<Rightarrow> bytes \<Rightarrow> 't" where
  "NewDefaultTreeWithPrefix d salts prefix compactPrefix =
     (let prop = (if prefix \<noteq> [] then NewLeafProperty prefix compactPrefix else zeroProperty)
      in NewDocumentTree d
           \<lparr>CompactProperties = True, EnableHashSorting = True, ParentPrefix = prop\<rparr>)"

definition GenerateNewSalts ::
  "('t, 'w) deps \<Rightarrow> message \<Rightarrow> string \<Rightarrow> bytes \<Rightarrow> error + DocumentSalt list" where
  "GenerateNewSalts d document prefix compactPrefix =
     (let docSalts = [];
          t = NewDefaultTreeWithPrefix d docSalts prefix compactPrefix
      in case AddLeavesFromDocument d t document of
           Inl err \<Rightarrow> Inl err
         | Inr _ \<Rightarrow> Inr docSalts)"

section \<open>CoreDocument: signatures, salts and versions\<close>

text \<open>\<^verbatim>\<open>AppendSignatures\<close>: allocate the signature data when it is nil, then append.\<close>

definition AppendSignatures :: "Signature list \<Rightarrow> CoreDocument \<Rightarrow> CoreDocument" where
  "AppendSignatures signs cd =
     (let cd1 = (if SignatureDataOf cd = None
                 then cd\<lparr>SignatureDataOf := Some \<lparr>Signatures = []\<rparr>\<rparr> else cd)
      in case SignatureDataOf cd1 of
           None \<Rightarrow> cd1
         | Some sd \<Rightarrow> cd1\<lparr>SignatureDataOf := Some (sd\<lparr>Signatures := Signatures sd @ signs\<rparr>)\<rparr>)"

text \<open>\<^verbatim>\<open>Signatures\<close>: the signatures on the document (a nil pointer panics in Go).\<close>

definition SignaturesOf :: "CoreDocument \<Rightarrow> Signature list" where
  "SignaturesOf cd = (case SignatureDataOf cd of None \<Rightarrow> [] | Some sd \<Rightarrow> Signatures sd)"

text \<open>
  \<^verbatim>\<open>setSalts\<close>: a no-op when the salts are there. The returned option is Go's
  \<^verbatim>\<open>error\<close> result, the document the receiver after the call.
\<close>

definition setSalts :: "('t, 'w) deps \<Rightarrow> CoreDocument \<Rightarrow> error option \<times> CoreDocument" where
  "setSalts d cd =
     (if CoredocumentSalts cd \<noteq> None then (None, cd)
      else case GenerateNewSalts d (CoreDocumentMsg cd) CDTreePrefix (compactProperties CDTreePrefix) of
             Inl err \<Rightarrow> (Some err, cd)
           | Inr pSalts \<Rightarrow> (None, cd\<lparr>CoredocumentSalts := ConvertToProtoSalts d pSalts\<rparr>))"

text \<open>
  \<^verbatim>\<open>populateVersions\<close>: the fields are assigned from the three results of
  \<^verbatim>\<open>GenerateHashPair\<close> before the error is looked at, as in the source.
\<close>

definition populateVersions ::
  "('t, 'w) deps \<Rightarrow> CoreDocument \<Rightarrow> CoreDocument option \<Rightarrow> 'w \<Rightarrow> (error option \<times> CoreDocument) \<times> 'w" where
  "populateVersions d cd prevCD w =
     (let (r1, w1) =
            (case prevCD of
               Some prev \<Rightarrow>
                 ((None, cd\<lparr>PreviousVersion := CurrentVersion prev,
                            CurrentVersion := NextVersion prev,
                            CurrentPreimage := NextPreimage prev\<rparr>), w)
             | None \<Rightarrow>
                 (let ((pre, ver, err), w') = GenerateHashPair d idSize w
                  in ((err, cd\<lparr>CurrentPreimage := pre, CurrentVersion := ver,
                               DocumentIdentifier := ver\<rparr>), w')))
      in case r1 of
           (Some err, cd1) \<Rightarrow> ((Some err, cd1), w1)
         | (None, cd1) \<Rightarrow>
             (let ((pre, ver, err), w2) = GenerateHashPair d idSize w1
              in ((err, cd1\<lparr>NextPreimage := pre, NextVersion := ver\<rparr>), w2)))"

text \<open>\<^verbatim>\<open>newRole\<close> and \<^verbatim>\<open>newRoleWithCollaborators\<close>: nil for no collaborators.\<close>

definition newRole :: "('t, 'w) deps \<Rightarrow> 'w \<Rightarrow> Role \<times> 'w" where
  "newRole d w =
     (let (k, w') = RandomSlice d idSize w
      in (\<lparr>RoleKey = k, Collaborators = [], RoleNfts = []\<rparr>, w'))"

definition newRoleWithCollaborators :: "('t, 'w) deps \<Rightarrow> DID list \<Rightarrow> 'w \<Rightarrow> Role option \<times> 'w" where
  "newRoleWithCollaborators d collaborators w =
     (if length collaborators = 0 then (None, w)
      else let (role, w') = newRole d w
           in (Some (fold (\<lambda>c r. r\<lparr>Collaborators := Collaborators r @ [c]\<rparr>) collaborators role), w'))"

section \<open>Collaborators\<close>

text \<open>
  \<^verbatim>\<open>strings.ToLower\<close> on the ASCII letters; the strings it is applied to are the
  renderings of DIDs.
\<close>

definition toLowerChar :: "char \<Rightarrow> char" where
  "toLowerChar c =
     (let n = (of_char c :: nat) in if 65 \<le> n \<and> n \<le> 90 then char_of (n + 32) else c)"

definition ToLower :: "string \<Rightarrow> string" where
  "ToLower s = map toLowerChar s"

text \<open>
  \<^verbatim>\<open>filterCollaborators\<close>: the first loop fills the Go map \<^verbatim>\<open>filter\<close>, the second
  appends every id whose lowered rendering is not a key of it.
\<close>

definition filterCollaborators :: "('t, 'w) deps \<Rightarrow> DID list \<Rightarrow> DID list \<Rightarrow> DID list" where
  "filterCollaborators d cs filterIDs =
     (let filter = fold (\<lambda>c m. m(ToLower (DIDString d c) \<mapsto> ())) filterIDs Map.empty
      in fold (\<lambda>id filteredIDs.
                 if filter (ToLower (DIDString d id)) \<noteq> None then filteredIDs
                 else filteredIDs @ [id]) cs [])"

text \<open>
  Modelled from the spec: \<^verbatim>\<open>findRole\<close> and \<^verbatim>\<open>getRole\<close> (read_acls.go) are not among
  the sources. Section 3 gives the shape: a read rule lists role keys and an action, a
  role is found by its key, and section 4.4 reaches collaborators through the read
  rules. \<open>visitedRoles\<close> is the sequence of roles the callback of \<^verbatim>\<open>findRole\<close> is
  called on: for every read rule with one of the actions, in order, the roles its keys
  name; a key that names no role is skipped.
\<close>

definition getRole :: "bytes \<Rightarrow> Role list \<Rightarrow> Role option" where
  "getRole key roles = find (\<lambda>r. RoleKey r = key) roles"

definition visitedRoles :: "CoreDocument \<Rightarrow> Action list \<Rightarrow> Role list" where
  "visitedRoles cd actions =
     concat (map (\<lambda>rule. if ReadAction rule \<in> set actions
                          then List.map_filter (\<lambda>rk. getRole rk (Roles cd)) (ReadRoles rule)
                          else [])
                 (ReadRules cd))"

definition findRole :: "CoreDocument \<Rightarrow> (Role \<Rightarrow> bool) \<Rightarrow> Action list \<Rightarrow> bool" where
  "findRole cd onRole actions = list_ex onRole (visitedRoles cd actions)"

text \<open>
  \<^verbatim>\<open>getCollaborators\<close>: the callback appends the DIDs of every visited role and
  returns false, so every role is visited; the error result is never set.
\<close>

definition getCollaborators :: "('t, 'w) deps \<Rightarrow> CoreDocument \<Rightarrow> Action list \<Rightarrow> error + DID list" where
  "getCollaborators d cd actions =
     Inr (concat (map (\<lambda>role. map (NewDIDFromBytes d) (Collaborators role))
                      (visitedRoles cd actions)))"

definition GetSignerCollaborators ::
  "('t, 'w) deps \<Rightarrow> CoreDocument \<Rightarrow> DID list \<Rightarrow> error + DID list" where
  "GetSignerCollaborators d cd filterIDs =
     (case getCollaborators d cd [ACTION_READ_SIGN] of
        Inl err \<Rightarrow> Inl err
      | Inr cs \<Rightarrow> Inr (filterCollaborators d cs filterIDs))"

definition GetCollaborators ::
  "('t, 'w) deps \<Rightarrow> CoreDocument \<Rightarrow> DID list \<Rightarrow> error + DID list" where
  "GetCollaborators d cd filterIDs =
     (case getCollaborators d cd [ACTION_READ_SIGN, ACTION_READ] of
        Inl err \<Rightarrow> Inl err
      | Inr cs \<Rightarrow> Inr (filterCollaborators d cs filterIDs))"

text \<open>
  Modelled from the spec: \<^verbatim>\<open>addCollaboratorsToReadSignRules\<close>,
  \<^verbatim>\<open>addNewReadRule\<close> and \<^verbatim>\<open>addCollaboratorsToTransitionRules\<close> are not among the
  sources. Section 4.2 says of a new version that it adds the new collaborators
  "under a fresh role with READ_SIGN and a transition rule", and of the first
  version that the transition rule is for the same role as the read rule; section 3
  gives a transition rule the fields roles, match type, field and action. The fresh
  role is made by \<^verbatim>\<open>newRoleWithCollaborators\<close>, which is among the sources and
  gives no role for no collaborators; the transition rule names the role appended last
  and matches the prefix it is given.
\<close>

definition addNewReadRule :: "bytes \<Rightarrow> Action \<Rightarrow> CoreDocument \<Rightarrow> CoreDocument" where
  "addNewReadRule roleKey action cd =
     cd\<lparr>ReadRules := ReadRules cd @ [\<lparr>ReadRoles = [roleKey], ReadAction = action\<rparr>]\<rparr>"

definition addCollaboratorsToReadSignRules ::
  "('t, 'w) deps \<Rightarrow> DID list \<Rightarrow> CoreDocument \<Rightarrow> 'w \<Rightarrow> CoreDocument \<times> 'w" where
  "addCollaboratorsToReadSignRules d collaborators cd w =
     (case newRoleWithCollaborators d collaborators w of
        (None, w') \<Rightarrow> (cd, w')
      | (Some role, w') \<Rightarrow>
          (addNewReadRule (RoleKey role) ACTION_READ_SIGN (cd\<lparr>Roles := Roles cd @ [role]\<rparr>), w'))"

definition addCollaboratorsToTransitionRules ::
  "DID list \<Rightarrow> bytes \<Rightarrow> CoreDocument \<Rightarrow> CoreDocument" where
  "addCollaboratorsToTransitionRules collaborators documentPrefix cd =
     (if length collaborators = 0 then cd
      else case rev (Roles cd) of
             [] \<Rightarrow> cd
           | role # _ \<Rightarrow>
               cd\<lparr>TransitionRules := TransitionRules cd @
                    [\<lparr>TransitionRoles = [RoleKey role], MatchType = FIELD_MATCH_TYPE_PREFIX,
                      Field = documentPrefix, TransitionActionOf = TRANSITION_ACTION_EDIT\<rparr>]\<rparr>)"

text \<open>
  \<^verbatim>\<open>PrepareNewVersion\<close>. The result is Go's pair: \<open>Inl\<close> is \<^verbatim>\<open>(nil, err)\<close>, \<open>Inr\<close>
  the new document with a nil error. The receiver is not changed.
\<close>

definition PrepareNewVersion ::
  "('t, 'w) deps \<Rightarrow> CoreDocument \<Rightarrow> string list \<Rightarrow> bool \<Rightarrow> bytes \<Rightarrow> 'w \<Rightarrow> (error + CoreDocument) \<times> 'w" where
  "PrepareNewVersion d cd collaborators initSalts documentPrefix w =
     (if length (DocumentRoot cd) \<noteq> idSize then (Inl DocumentRootInvalid, w)
      else case NewDIDsFromStrings d collaborators of
        Inl err \<Rightarrow> (Inl err, w)
      | Inr cs \<Rightarrow>
         (case GetCollaborators d cd [] of
            Inl err \<Rightarrow> (Inl err, w)
          | Inr oldCs \<Rightarrow>
             (let ucs = filterCollaborators d cs oldCs;
                  cdp = zeroCoreDocument
                          \<lparr>DocumentIdentifier := DocumentIdentifier cd,
                           PreviousRoot := DocumentRoot cd,
                           Roles := Roles cd,
                           ReadRules := ReadRules cd,
                           TransitionRules := TransitionRules cd,
                           Nfts := Nfts cd,
                           AccessTokens := AccessTokens cd,
                           SignatureDataOf := Some \<lparr>Signatures = []\<rparr>\<rparr>
              in case populateVersions d cdp (Some cd) w of
                   ((Some err, _), w1) \<Rightarrow> (Inl err, w1)
                 | ((None, cdp1), w1) \<Rightarrow>
                    (let (ncd1, w2) = addCollaboratorsToReadSignRules d ucs cdp1 w1;
                         ncd2 = addCollaboratorsToTransitionRules ucs documentPrefix ncd1
                     in if \<not> initSalts then (Inr ncd2, w2)
                        else case setSalts d ncd2 of
                               (Some err, _) \<Rightarrow> (Inl (Wrapped ''failed to init salts'' err), w2)
                             | (None, ncd3) \<Rightarrow> (Inr ncd3, w2)))))"

section \<open>CoreDocument: trees and roots\<close>

text \<open>
  The methods below may fill the salts of the receiver, so they return the receiver
  next to their result (also when the result is an error).
\<close>

definition setSignatureDataSalts ::
  "('t, 'w) deps \<Rightarrow> CoreDocument \<Rightarrow> (error + DocumentSalt list option) \<times> CoreDocument" where
  "setSignatureDataSalts d cd =
     (if SignatureDataSalts cd = None
      then case GenerateNewSalts d (SignatureDataMsg (SignatureDataOf cd)) SignaturesTreePrefix
                  (compactProperties SignaturesTreePrefix) of
             Inl err \<Rightarrow> (Inl err, cd)
           | Inr proofSalts \<Rightarrow>
               (let cd1 = cd\<lparr>SignatureDataSalts := ConvertToProtoSalts d proofSalts\<rparr>
                in (Inr (SignatureDataSalts cd1), cd1))
      else (Inr (SignatureDataSalts cd), cd))"

definition getSignatureDataTree ::
  "('t, 'w) deps \<Rightarrow> CoreDocument \<Rightarrow> (error + 't) \<times> CoreDocument" where
  "getSignatureDataTree d cd =
     (case setSignatureDataSalts d cd of
        (Inl err, cd1) \<Rightarrow> (Inl err, cd1)
      | (Inr signatureSalts, cd1) \<Rightarrow>
          (let tree = NewDefaultTreeWithPrefix d (ConvertToProofSalts d signatureSalts)
                        SignaturesTreePrefix (compactProperties SignaturesTreePrefix)
           in case AddLeavesFromDocument d tree (SignatureDataMsg (SignatureDataOf cd1)) of
                Inl err \<Rightarrow> (Inl err, cd1)
              | Inr tree1 \<Rightarrow>
                  (case Generate d tree1 of
                     Inl err \<Rightarrow> (Inl err, cd1)
                   | Inr tree2 \<Rightarrow> (Inr tree2, cd1))))"

text \<open>The two leaves of the document root tree: a hash that is not hashed again.\<close>

definition hashedLeaf :: "string \<Rightarrow> string \<Rightarrow> bytes \<Rightarrow> LeafNode" where
  "hashedLeaf prefix field h =
     \<lparr>LeafProperty = NewLeafProperty (prefix @ ''.'' @ field)
                       (compactProperties prefix @ compactProperties field),
      LeafValue = [], LeafSalt = [], LeafHash = h, Hashed = True\<rparr>"

definition DocumentRootTree ::
  "('t, 'w) deps \<Rightarrow> CoreDocument \<Rightarrow> (error + 't) \<times> CoreDocument" where
  "DocumentRootTree d cd =
     (if length (SigningRoot cd) \<noteq> idSize then (Inl SigningRootInvalid, cd)
      else
        (let tree = NewDefaultTreeWithPrefix d (ConvertToProofSalts d (CoredocumentSalts cd))
                      DRTreePrefix (compactProperties DRTreePrefix)
         in case AddLeaf d tree (hashedLeaf DRTreePrefix SigningRootField (SigningRoot cd)) of
              Inl err \<Rightarrow> (Inl err, cd)
            | Inr tree1 \<Rightarrow>
                (case getSignatureDataTree d cd of
                   (Inl err, cd1) \<Rightarrow> (Inl err, cd1)
                 | (Inr signatureTree, cd1) \<Rightarrow>
                     (case AddLeaf d tree1
                             (hashedLeaf DRTreePrefix SignaturesRootField (RootHash d signatureTree)) of
                        Inl err \<Rightarrow> (Inl err, cd1)
                      | Inr tree2 \<Rightarrow>
                          (case Generate d tree2 of
                             Inl err \<Rightarrow> (Inl err, cd1)
                           | Inr tree3 \<Rightarrow> (Inr tree3, cd1))))))"

definition CalculateDocumentRoot ::
  "('t, 'w) deps \<Rightarrow> CoreDocument \<Rightarrow> (error + bytes) \<times> CoreDocument" where
  "CalculateDocumentRoot d cd =
     (case DocumentRootTree d cd of
        (Inl err, cd1) \<Rightarrow> (Inl err, cd1)
      | (Inr tree, cd1) \<Rightarrow>
          (let cd2 = cd1\<lparr>DocumentRoot := RootHash d tree\<rparr>
           in (Inr (DocumentRoot cd2), cd2)))"

definition bytesOfString :: "string \<Rightarrow> bytes" where
  "bytesOfString s = map (\<lambda>c. of_nat (of_char c)) s"

definition documentTree :: "('t, 'w) deps \<Rightarrow> CoreDocument \<Rightarrow> string \<Rightarrow> error + 't" where
  "documentTree d cd docType =
     (let tree = NewDefaultTreeWithPrefix d (ConvertToProofSalts d (CoredocumentSalts cd))
                   CDTreePrefix (compactProperties CDTreePrefix)
      in case AddLeavesFromDocument d tree (CoreDocumentMsg cd) of
           Inl err \<Rightarrow> Inl err
         | Inr tree1 \<Rightarrow>
             (let dtProp = NewLeafProperty (CDTreePrefix @ ''.'' @ DocumentTypeField)
                             (compactProperties CDTreePrefix @ compactProperties DocumentTypeField);
                  documentTypeNode =
                    \<lparr>LeafProperty = dtProp, LeafValue = bytesOfString docType,
                     LeafSalt = replicate 32 0, LeafHash = [], Hashed = False\<rparr>
              in case HashNode d documentTypeNode of
                   Inl err \<Rightarrow> Inl err
                 | Inr node \<Rightarrow>
                     (case AddLeaf d tree1 node of
                        Inl err \<Rightarrow> Inl err
                      | Inr tree2 \<Rightarrow>
                          (case Generate d tree2 of
                             Inl err \<Rightarrow> Inl err
                           | Inr tree3 \<Rightarrow> Inr tree3))))"

definition GetSigningRootHash ::
  "('t, 'w) deps \<Rightarrow> CoreDocument \<Rightarrow> (error + bytes) \<times> CoreDocument" where
  "GetSigningRootHash d cd =
     (case DocumentRootTree d cd of
        (Inl err, cd1) \<Rightarrow> (Inl err, cd1)
      | (Inr tree, cd1) \<Rightarrow>
          (case CreateProof d tree (DRTreePrefix @ ''.'' @ SigningRootField) of
             Inl err \<Rightarrow> (Inl err, cd1)
           | Inr rootProof \<Rightarrow> (Inr (ProofHash rootProof), cd1)))"

definition GetSignaturesRootHash ::
  "('t, 'w) deps \<Rightarrow> CoreDocument \<Rightarrow> (error + bytes) \<times> CoreDocument" where
  "GetSignaturesRootHash d cd =
     (case getSignatureDataTree d cd of
        (Inl err, cd1) \<Rightarrow> (Inl err, cd1)
      | (Inr tree, cd1) \<Rightarrow> (Inr (RootHash d tree), cd1))"

section \<open>CoreDocument: proofs\<close>

text \<open>
  \<^verbatim>\<open>strings.Split(s, sep)\<close> for a separator of one character: the segments between
  the separators, one segment (the empty one) for the empty string.
\<close>

fun Split :: "string \<Rightarrow> char \<Rightarrow> string list" where
  "Split [] sep = [[]]"
| "Split (c # cs) sep =
     (if c = sep then [] # Split cs sep
      else case Split cs sep of
             [] \<Rightarrow> [[c]]
           | seg # segs \<Rightarrow> (c # seg) # segs)"

text \<open>Indexing a Go slice panics out of range; the model returns the panic as an error.\<close>

definition index0 :: "'a list \<Rightarrow> error + 'a" where
  "index0 xs = (case xs of [] \<Rightarrow> Inl (External ''index out of range'') | x # _ \<Rightarrow> Inr x)"

definition getDataTreePrefix :: "('t, 'w) deps \<Rightarrow> 't \<Rightarrow> error + string" where
  "getDataTreePrefix d dataTree =
     (let props = PropertyOrder d dataTree
      in case props of
           [] \<Rightarrow> Inl NoPropertiesInDataTree
         | p # _ \<Rightarrow>
             (let fidx = Split (ReadableName p) (CHR ''.'')
              in if length fidx = 1 then Inl NoPrefixInDataTreeProperty
                 else index0 fidx))"

text \<open>\<^verbatim>\<open>TreeProof\<close>: a tree and the hashes to append to its proofs.\<close>

type_synonym 't TreeProof = "'t \<times> bytes list"

definition newTreeProof :: "'t \<Rightarrow> bytes list \<Rightarrow> 't TreeProof" where
  "newTreeProof t th = (t, th)"

text \<open>
  \<^verbatim>\<open>generateProofs\<close>: the loop over the fields, with the proofs so far as the
  accumulator; the first field that fails ends the loop with its error.
\<close>

fun generateProofsFrom ::
  "('t, 'w) deps \<Rightarrow> (string \<rightharpoonup> 't TreeProof) \<Rightarrow> string list \<Rightarrow> Proof list \<Rightarrow> error + Proof list" where
  "generateProofsFrom d treeProofs [] prfs = Inr prfs"
| "generateProofsFrom d treeProofs (f # fs) prfs =
     (case index0 (Split f (CHR ''.'')) of
        Inl err \<Rightarrow> Inl err
      | Inr key \<Rightarrow>
          (case treeProofs key of
             None \<Rightarrow> Inl PrefixTreeNotFound
           | Some t \<Rightarrow>
               (case CreateProof d (fst t) f of
                  Inl err \<Rightarrow> Inl err
                | Inr proof \<Rightarrow>
                    (let thashes = snd t;
                         proof1 = proof\<lparr>SortedHashes := SortedHashes proof @ thashes\<rparr>
                     in generateProofsFrom d treeProofs fs (prfs @ [proof1])))))"

definition generateProofs ::
  "('t, 'w) deps \<Rightarrow> string list \<Rightarrow> (string \<rightharpoonup> 't TreeProof) \<Rightarrow> error + Proof list" where
  "generateProofs d fieldNames treeProofs = generateProofsFrom d treeProofs fieldNames []"

text \<open>
  The Go map \<^verbatim>\<open>treeProofs\<close> of \<^verbatim>\<open>CreateProofs\<close>, filled by four assignments in
  the order of the source: a later assignment to the same key replaces the earlier one.
\<close>

definition proofTrees ::
  "('t, 'w) deps \<Rightarrow> 't \<Rightarrow> 't \<Rightarrow> 't \<Rightarrow> 't \<Rightarrow> string \<Rightarrow> bytes \<Rightarrow> (string \<rightharpoonup> 't TreeProof)" where
  "proofTrees d drTree dataTree signatureTree cdTree dataPrefix srHash =
     (let dataRoot = RootHash d dataTree;
          cdRoot = RootHash d cdTree
      in (((Map.empty
             (DRTreePrefix \<mapsto> newTreeProof drTree []))
             (dataPrefix \<mapsto> newTreeProof dataTree ([cdRoot] @ [RootHash d signatureTree])))
             (SignaturesTreePrefix \<mapsto> newTreeProof signatureTree [srHash]))
             (CDTreePrefix \<mapsto> newTreeProof cdTree ([dataRoot] @ [RootHash d signatureTree])))"

definition CreateProofs ::
  "('t, 'w) deps \<Rightarrow> CoreDocument \<Rightarrow> string \<Rightarrow> 't \<Rightarrow> string list \<Rightarrow> (error + Proof list) \<times> CoreDocument" where
  "CreateProofs d cd docType dataTree fieldNames =
     (case DocumentRootTree d cd of
        (Inl err, cd1) \<Rightarrow> (Inl err, cd1)
      | (Inr drTree, cd1) \<Rightarrow>
     (case getSignatureDataTree d cd1 of
        (Inl err, cd2) \<Rightarrow> (Inl (Wrapped ''failed to generate signatures tree'' err), cd2)
      | (Inr signatureTree, cd2) \<Rightarrow>
     (case documentTree d cd2 docType of
        Inl err \<Rightarrow> (Inl (Wrapped ''failed to generate core Document tree'' err), cd2)
      | Inr cdTree \<Rightarrow>
     (case GetSigningRootHash d cd2 of
        (Inl err, cd3) \<Rightarrow> (Inl (Wrapped ''failed to generate signing root proofs'' err), cd3)
      | (Inr srHash, cd3) \<Rightarrow>
     (case getDataTreePrefix d dataTree of
        Inl err \<Rightarrow> (Inl err, cd3)
      | Inr dataPrefix \<Rightarrow>
          (generateProofs d fieldNames
             (proofTrees d drTree dataTree signatureTree cdTree dataPrefix srHash), cd3))))))"

section \<open>NFTs and read access\<close>

text \<open>
  Modelled from the spec: \<^verbatim>\<open>ConstructNFT\<close>, \<^verbatim>\<open>getStoredNFT\<close>,
  \<^verbatim>\<open>addNFTToReadRules\<close> and \<^verbatim>\<open>AddNFT\<close> of CoreDocument (read_acls.go) are not
  among the sources; their callers (purchaseorder/model.go), the declaration in the
  \<^verbatim>\<open>Model\<close> interface and their tests (read_acls_test.go) are. Section 3 and 4.2 of
  the specification give: an entry of \<^verbatim>\<open>nfts\<close> is the registry address padded on the
  right to 32 bytes and the token id; with read access a new role that holds the NFT
  and a read rule with action READ are appended; a token of the wrong length is an
  error. The tests fix what the specification leaves open:
  \<^item> the combined bytes of registry and token in a role are \<^verbatim>\<open>nftByteCount\<close> = 52 long
    (the constant of coredocument.go; \<^verbatim>\<open>TestCoreDocument_addNFTToReadRules\<close> rejects a
    token of 34 bytes and leaves the document as it was);
  \<^item> \<^verbatim>\<open>addNFTToReadRules\<close> leaves the salts of the document set
    (\<^verbatim>\<open>TestCoreDocument_addNFTToReadRules\<close>);
  \<^item> \<^verbatim>\<open>AddNFT\<close> returns a new version of a document whose root is set (every test
    sets a 32-byte document root before the call and goes on with the returned
    document);
  \<^item> a second \<^verbatim>\<open>AddNFT\<close> for a registry that has an entry keeps one entry and stores
    the new token in it (\<^verbatim>\<open>TestCoreDocumentModel_AddNFT\<close>: \<^verbatim>\<open>Nfts\<close> has length 1
    after both calls, and \<^verbatim>\<open>getStoredNFT\<close> gives the second token).
\<close>

definition ConstructNFT :: "bytes \<Rightarrow> bytes \<Rightarrow> error + bytes" where
  "ConstructNFT registry tokenID =
     (let nft = registry @ tokenID
      in if length nft \<noteq> nftByteCount then Inl InvalidNFT else Inr nft)"

definition paddedRegistry :: "bytes \<Rightarrow> bytes" where
  "paddedRegistry registry = registry @ replicate 12 0"

text \<open>The index of the first entry for the registry, if there is one.\<close>

fun getStoredNFT :: "NFT list \<Rightarrow> bytes \<Rightarrow> nat option" where
  "getStoredNFT [] registry = None"
| "getStoredNFT (nft # nfts) registry =
     (if RegistryId nft = paddedRegistry registry then Some 0
      else map_option Suc (getStoredNFT nfts registry))"

definition addNFTToReadRules ::
  "('t, 'w) deps \<Rightarrow> bytes \<Rightarrow> bytes \<Rightarrow> CoreDocument \<Rightarrow> 'w \<Rightarrow> (error option \<times> CoreDocument) \<times> 'w" where
  "addNFTToReadRules d registry tokenID cd w =
     (case ConstructNFT registry tokenID of
        Inl err \<Rightarrow> ((Some (Wrapped ''failed to construct NFT'' err), cd), w)
      | Inr nft \<Rightarrow>
          (let (role, w1) = newRole d w;
               role1 = role\<lparr>RoleNfts := RoleNfts role @ [nft]\<rparr>;
               cd1 = addNewReadRule (RoleKey role1) ACTION_READ (cd\<lparr>Roles := Roles cd @ [role1]\<rparr>)
           in (setSalts d cd1, w1)))"

definition AddNFT ::
  "('t, 'w) deps \<Rightarrow> CoreDocument \<Rightarrow> bool \<Rightarrow> bytes \<Rightarrow> bytes \<Rightarrow> 'w \<Rightarrow> (error + CoreDocument) \<times> 'w" where
  "AddNFT d cd grantReadAccess registry tokenID w =
     (case PrepareNewVersion d cd [] False [] w of
        (Inl err, w1) \<Rightarrow> (Inl (Wrapped ''failed to prepare new version'' err), w1)
      | (Inr ncd, w1) \<Rightarrow>
          (let ncd1 =
                 (case getStoredNFT (Nfts ncd) registry of
                    None \<Rightarrow>
                      ncd\<lparr>Nfts := Nfts ncd @
                             [\<lparr>RegistryId = paddedRegistry registry, TokenId = tokenID\<rparr>]\<rparr>
                  | Some i \<Rightarrow>
                      ncd\<lparr>Nfts := (Nfts ncd)[i := (Nfts ncd ! i)\<lparr>TokenId := tokenID\<rparr>]\<rparr>)
           in if grantReadAccess
              then case addNFTToReadRules d registry tokenID ncd1 w1 of
                     ((Some err, _), w2) \<Rightarrow> (Inl err, w2)
                   | ((None, ncd2), w2) \<Rightarrow> (Inr ncd2, w2)
              else (Inr ncd1, w1)))"

text \<open>
  Modelled from the spec: \<^verbatim>\<open>AccountCanRead\<close>, \<^verbatim>\<open>isNFTInRole\<close> and
  \<^verbatim>\<open>NFTOwnerCanRead\<close> of CoreDocument (read_acls.go) are not among the sources; the
  declarations in the \<^verbatim>\<open>Model\<close> and \<^verbatim>\<open>TokenRegistry\<close> interfaces and the test
  \<^verbatim>\<open>TestCoreDocument_NFTOwnerCanRead\<close> are. Section 4.4: a requester reads as a
  collaborator when a role reachable from a read rule holds it; for the NFT mode the
  NFT must be bound to the document and the owner the registry reports must be the
  requester. The test fixes the order of the checks: an account that can read as a
  collaborator gets no error, with a nil registry and a nil token; for any other account
  a missing NFT is an error before the registry is asked; then an error of the registry
  and an owner other than the account are errors, and the owner itself gets none.
\<close>

type_synonym TokenRegistry = "bytes \<Rightarrow> bytes \<Rightarrow> error + bytes"

definition isAccountInRole :: "Role \<Rightarrow> DID \<Rightarrow> bool" where
  "isAccountInRole role account = list_ex (\<lambda>c. c = account) (Collaborators role)"

definition AccountCanRead :: "CoreDocument \<Rightarrow> DID \<Rightarrow> bool" where
  "AccountCanRead cd account =
     findRole cd (\<lambda>role. isAccountInRole role account) [ACTION_READ_SIGN, ACTION_READ]"

definition isNFTInRole :: "Role \<Rightarrow> bytes \<Rightarrow> bytes \<Rightarrow> bool" where
  "isNFTInRole role registry tokenID =
     (case ConstructNFT registry tokenID of
        Inl _ \<Rightarrow> False
      | Inr enft \<Rightarrow> list_ex (\<lambda>n. n = enft) (RoleNfts role))"

definition NFTOwnerCanRead ::
  "CoreDocument \<Rightarrow> TokenRegistry \<Rightarrow> bytes \<Rightarrow> bytes \<Rightarrow> DID \<Rightarrow> error option" where
  "NFTOwnerCanRead cd tokenRegistry registry tokenID account =
     (if AccountCanRead cd account then None
      else if \<not> findRole cd (\<lambda>role. isNFTInRole role registry tokenID) [ACTION_READ]
      then Some NFTNotFoundInDocument
      else case tokenRegistry registry tokenID of
             Inl err \<Rightarrow> Some (Wrapped ''failed to get NFT owner'' err)
           | Inr owner \<Rightarrow> if owner \<noteq> account then Some NotOwnerOfNFT else None)"

text \<open>
  The NFT is bound with read access: a role reachable from a read rule with action READ
  holds it. This is the hypothesis of the access property, not code.
\<close>

definition nftBoundWithReadAccess :: "CoreDocument \<Rightarrow> bytes \<Rightarrow> bytes \<Rightarrow> bool" where
  "nftBoundWithReadAccess cd registry tokenID =
     findRole cd (\<lambda>role. isNFTInRole role registry tokenID) [ACTION_READ]"

section \<open>The document service: the current version\<close>

text \<open>
  Modelled from the spec: \<^verbatim>\<open>GetCurrentVersion\<close> of the document service (service.go)
  is not among the sources; its tests (documents_test/service_test.go) and its caller in
  the p2p receiver are. Section 4.7: it "walks next_version links until a key is
  absent" and "must terminate even on cyclic next_version (detect and fail)"; storage
  is keyed by version. The tests: an identifier that is not stored is an error; a chain
  of stored versions gives the last one, whose next version is not stored. The store
  of one account is an association list from version to document; \<open>visited\<close> are the
  keys the walk has loaded.
\<close>

type_synonym repository = "(bytes \<times> CoreDocument) list"

function walkVersions :: "repository \<Rightarrow> bytes list \<Rightarrow> CoreDocument \<Rightarrow> error + CoreDocument" where
  "walkVersions repo visited model =
     (case map_of repo (NextVersion model) of
        None \<Rightarrow> Inr model
      | Some nextModel \<Rightarrow>
          if NextVersion model \<in> set visited then Inl CyclicVersions
          else walkVersions repo (NextVersion model # visited) nextModel)"
  by pat_completeness auto
termination
proof (relation "measure (\<lambda>(repo, visited, model). card (fst ` set repo - set visited))")
  show "wf (measure (\<lambda>(repo, visited, model). card (fst ` set repo - set visited)))"
    by simp
next
  fix repo :: repository and visited :: "bytes list" and model nextModel :: CoreDocument
  assume stored: "map_of repo (NextVersion model) = Some nextModel"
    and fresh: "NextVersion model \<notin> set visited"
  have "NextVersion model \<in> fst ` set repo"
    using map_of_SomeD [OF stored] by force
  then have "fst ` set repo - set (NextVersion model # visited) \<subset> fst ` set repo - set visited"
    using fresh by auto
  then have "card (fst ` set repo - set (NextVersion model # visited))
             < card (fst ` set repo - set visited)"
    by (intro psubset_card_mono) auto
  then show "((repo, NextVersion model # visited, nextModel), (repo, visited, model))
             \<in> measure (\<lambda>(repo, visited, model). card (fst ` set repo - set visited))"
    by simp
qed

definition GetCurrentVersion :: "repository \<Rightarrow> bytes \<Rightarrow> error + CoreDocument" where
  "GetCurrentVersion repo documentID =
     (case map_of repo documentID of
        None \<Rightarrow> Inl DocumentNotFound
      | Some model \<Rightarrow> walkVersions repo [documentID] model)"

section \<open>The p2p receiver: GetDocument\<close>

text \<open>
  The handler of package receiver. \<^verbatim>\<open>documents.Model\<close> is an interface: the model is
  the record of the methods the handler calls, each already applied to the context and
  to the identity service of the handler. \<^verbatim>\<open>docSrv\<close> is the document service of the
  handler, \<^verbatim>\<open>tokenRegistry\<close> its token registry.
\<close>

record Model =
  ModelAccountCanRead :: "DID \<Rightarrow> bool"
  ModelNFTOwnerCanRead :: "TokenRegistry \<Rightarrow> bytes \<Rightarrow> bytes \<Rightarrow> DID \<Rightarrow> error option"
  ModelATGranteeCanRead :: "bytes \<Rightarrow> bytes \<Rightarrow> DID \<Rightarrow> error option"
  PackCoreDocument :: "error + CoreDocument"

datatype AccessType =
    ACCESS_TYPE_INVALID
  | ACCESS_TYPE_REQUESTER_VERIFICATION
  | ACCESS_TYPE_NFT_OWNER_VERIFICATION
  | ACCESS_TYPE_ACCESS_TOKEN_VERIFICATION

record AccessTokenRequest =
  DelegatingDocumentIdentifier :: bytes
  AccessTokenId :: bytes

record GetDocumentRequest =
  RequestDocumentIdentifier :: bytes
  AccessTypeOf :: AccessType
  NftRegistryAddress :: bytes
  NftTokenId :: bytes
  AccessTokenRequestOf :: "AccessTokenRequest option"

record GetDocumentResponse =
  Document :: CoreDocument

record Handler =
  docSrvGetCurrentVersion :: "bytes \<Rightarrow> error + Model"
  tokenRegistry :: TokenRegistry

text \<open>
  \<^verbatim>\<open>common.BytesToAddress\<close> of go-ethereum: the last 20 bytes, padded with zeros on
  the left.
\<close>

definition BytesToAddress :: "bytes \<Rightarrow> bytes" where
  "BytesToAddress b =
     (let b1 = drop (length b - 20) b in replicate (20 - length b1) 0 @ b1)"

definition validateDocumentAccess ::
  "Handler \<Rightarrow> GetDocumentRequest \<Rightarrow> Model \<Rightarrow> DID \<Rightarrow> error option" where
  "validateDocumentAccess srv docReq m peer =
     (case AccessTypeOf docReq of
        ACCESS_TYPE_REQUESTER_VERIFICATION \<Rightarrow>
          if \<not> ModelAccountCanRead m peer then Some RequesterHasNoAccess else None
      | ACCESS_TYPE_NFT_OWNER_VERIFICATION \<Rightarrow>
          (let registry = BytesToAddress (NftRegistryAddress docReq)
           in if ModelNFTOwnerCanRead m (tokenRegistry srv) registry (NftTokenId docReq) peer \<noteq> None
              then Some RequesterHasNoAccess else None)
      | ACCESS_TYPE_ACCESS_TOKEN_VERIFICATION \<Rightarrow>
          (case AccessTokenRequestOf docReq of
             None \<Rightarrow> Some AccessTokenRequestNil
           | Some atr \<Rightarrow>
               (case docSrvGetCurrentVersion srv (DelegatingDocumentIdentifier atr) of
                  Inl err \<Rightarrow> Some err
                | Inr m1 \<Rightarrow>
                    (case ModelATGranteeCanRead m1 (AccessTokenId atr)
                            (RequestDocumentIdentifier docReq) peer of
                       Some err \<Rightarrow> Some err
                     | None \<Rightarrow> None)))
      | ACCESS_TYPE_INVALID \<Rightarrow> Some InvalidAccessType)"

text \<open>
  \<^verbatim>\<open>GetDocument\<close> returns Go's pair of a response pointer and an error. The variable
  \<^verbatim>\<open>err\<close> that the second \<^verbatim>\<open>return nil, err\<close> hands back is the one assigned by
  \<^verbatim>\<open>GetCurrentVersion\<close>: the result of the validation is compared with nil and not
  stored.
\<close>

definition errOf :: "error + 'a \<Rightarrow> error option" where
  "errOf r = (case r of Inl err \<Rightarrow> Some err | Inr _ \<Rightarrow> None)"

definition GetDocument ::
  "Handler \<Rightarrow> GetDocumentRequest \<Rightarrow> DID \<Rightarrow> GetDocumentResponse option \<times> error option" where
  "GetDocument srv docReq requester =
     (let r = docSrvGetCurrentVersion srv (RequestDocumentIdentifier docReq)
      in case r of
           Inl err \<Rightarrow> (None, Some err)
         | Inr model \<Rightarrow>
             if validateDocumentAccess srv docReq model requester \<noteq> None then (None, errOf r)
             else (case PackCoreDocument model of
                     Inl err \<Rightarrow> (None, Some err)
                   | Inr cd \<Rightarrow> (Some \<lparr>Document = cd\<rparr>, None)))"

section \<open>An instance of the dependencies\<close>

text \<open>
  A small instance of \<open>deps\<close>, to evaluate the model on concrete inputs. A tree is its
  leaves; generating it makes the concatenation of the leaf hashes its root; a proof of
  a leaf lists the hashes of the other leaves. A signature is one leaf, a core document
  is one leaf for its identifier. A DID string is one character for each byte; the
  random source is a counter.
\<close>

record SampleTree =
  stOptions :: TreeOptions
  stLeaves :: "LeafNode list"
  stFilled :: bool
  stRoot :: bytes

definition prefixedName :: "Property \<Rightarrow> string \<Rightarrow> string" where
  "prefixedName parent name =
     (if ReadableName parent = [] then name else ReadableName parent @ ''.'' @ name)"

fun sampleSignatureLeaves :: "Property \<Rightarrow> nat \<Rightarrow> Signature list \<Rightarrow> LeafNode list" where
  "sampleSignatureLeaves parent i [] = []"
| "sampleSignatureLeaves parent i (s # ss) =
     \<lparr>LeafProperty = \<lparr>ReadableName = prefixedName parent (''signatures'' @ replicate i (CHR ''+'')),
                      Compact = Compact parent @ [of_nat i]\<rparr>,
      LeafValue = SignatureBytes s, LeafSalt = [], LeafHash = SignerId s @ SignatureBytes s,
      Hashed = True\<rparr> # sampleSignatureLeaves parent (Suc i) ss"

definition sampleLeaves :: "Property \<Rightarrow> message \<Rightarrow> LeafNode list" where
  "sampleLeaves parent m =
     (case m of
        SignatureDataMsg None \<Rightarrow> []
      | SignatureDataMsg (Some sd) \<Rightarrow> sampleSignatureLeaves parent 0 (Signatures sd)
      | CoreDocumentMsg cd \<Rightarrow>
          [\<lparr>LeafProperty = \<lparr>ReadableName = prefixedName parent ''document_identifier'',
                            Compact = Compact parent @ [0, 0, 0, 1]\<rparr>,
            LeafValue = DocumentIdentifier cd, LeafSalt = [],
            LeafHash = DocumentIdentifier cd, Hashed = True\<rparr>])"

definition sampleCreateProof :: "SampleTree \<Rightarrow> string \<Rightarrow> error + Proof" where
  "sampleCreateProof t f =
     (case find (\<lambda>l. ReadableName (LeafProperty l) = f) (stLeaves t) of
        None \<Rightarrow> Inl (External ''field not found'')
      | Some l \<Rightarrow>
          Inr \<lparr>ProofProperty = f, ProofValue = LeafValue l, ProofSalt = LeafSalt l,
               ProofHash = LeafHash l,
               SortedHashes = map LeafHash
                 (filter (\<lambda>l1. ReadableName (LeafProperty l1) \<noteq> f) (stLeaves t))\<rparr>)"

definition sampleDeps :: "(SampleTree, nat) deps" where
  "sampleDeps =
     \<lparr>NewDIDsFromStrings = (\<lambda>ss. if list_all (\<lambda>s. length s = 20) ss
                                  then Inr (map bytesOfString ss)
                                  else Inl (External ''malformed address provided'')),
      NewDIDFromBytes = BytesToAddress,
      DIDString = map (\<lambda>b. char_of (unat b)),
      GenerateHashPair = (\<lambda>n w. ((replicate n (of_nat w), replicate n (of_nat (Suc w)), None), w + 2)),
      RandomSlice = (\<lambda>n w. (replicate n (of_nat w), Suc w)),
      ConvertToProtoSalts = Some,
      ConvertToProofSalts = (\<lambda>salts. case salts of None \<Rightarrow> [] | Some xs \<Rightarrow> xs),
      NewDocumentTree = (\<lambda>opts. \<lparr>stOptions = opts, stLeaves = [], stFilled = False, stRoot = []\<rparr>),
      AddLeaf = (\<lambda>t l. if stFilled t then Inl (External ''tree already filled'')
                        else Inr (t\<lparr>stLeaves := stLeaves t @ [l]\<rparr>)),
      AddLeavesFromDocument =
        (\<lambda>t m. if stFilled t then Inl (External ''tree already filled'')
                else Inr (t\<lparr>stLeaves := stLeaves t @ sampleLeaves (ParentPrefix (stOptions t)) m\<rparr>)),
      Generate = (\<lambda>t. if stFilled t then Inl (External ''tree already filled'')
                       else Inr (t\<lparr>stFilled := True, stRoot := concat (map LeafHash (stLeaves t))\<rparr>)),
      RootHash = stRoot,
      CreateProof = sampleCreateProof,
      PropertyOrder = (\<lambda>t. map LeafProperty (stLeaves t)),
      HashNode = (\<lambda>l. Inr (l\<lparr>LeafHash := LeafValue l @ LeafSalt l, Hashed := True\<rparr>))\<rparr>"

text \<open>
  The document that \<^verbatim>\<open>PrepareNewVersion\<close> starts the new version from: the composite
  literal of the source after \<^verbatim>\<open>populateVersions\<close> has filled the versions from the
  predecessor and from the fresh hash pair.
\<close>

definition newVersionBase :: "CoreDocument \<Rightarrow> bytes \<Rightarrow> bytes \<Rightarrow> CoreDocument" where
  "newVersionBase cd pre ver =
     zeroCoreDocument
       \<lparr>DocumentIdentifier := DocumentIdentifier cd,
        PreviousRoot := DocumentRoot cd,
        Roles := Roles cd,
        ReadRules := ReadRules cd,
        TransitionRules := TransitionRules cd,
        Nfts := Nfts cd,
        AccessTokens := AccessTokens cd,
        SignatureDataOf := Some \<lparr>Signatures = []\<rparr>,
        PreviousVersion := CurrentVersion cd,
        CurrentVersion := NextVersion cd,
        CurrentPreimage := NextPreimage cd,
        NextPreimage := pre, NextVersion := ver\<rparr>"

text \<open>Sample documents, a sample model and a sample handler for the instance above.\<close>

definition sampleRole :: Role where
  "sampleRole = \<lparr>RoleKey = [9], Collaborators = [replicate 20 97], RoleNfts = []\<rparr>"

definition sampleDocument :: CoreDocument where
  "sampleDocument =
     zeroCoreDocument
       \<lparr>DocumentIdentifier := [1], CurrentVersion := [2], NextVersion := [3],
        CurrentPreimage := [4], NextPreimage := [5],
        SigningRoot := replicate 32 6, DocumentRoot := replicate 32 7,
        Roles := [sampleRole],
        ReadRules := [\<lparr>ReadRoles = [[9]], ReadAction = ACTION_READ_SIGN\<rparr>]\<rparr>"

definition sampleModel :: Model where
  "sampleModel =
     \<lparr>ModelAccountCanRead = (\<lambda>account. account = replicate 20 97),
      ModelNFTOwnerCanRead = (\<lambda>tr registry tokenID account. NFTOwnerCanRead sampleDocument tr registry tokenID account),
      ModelATGranteeCanRead = (\<lambda>tokenID docID grantee. Some (External ''access token not found'')),
      PackCoreDocument = Inr sampleDocument\<rparr>"

definition sampleHandler :: Handler where
  "sampleHandler =
     \<lparr>docSrvGetCurrentVersion = (\<lambda>documentID. if documentID = [1] then Inr sampleModel
                                               else Inl DocumentNotFound),
      tokenRegistry = (\<lambda>registry tokenID. Inl (External ''failed to get owner of''))\<rparr>"

definition sampleRequest :: GetDocumentRequest where
  "sampleRequest =
     \<lparr>RequestDocumentIdentifier = [1], AccessTypeOf = ACCESS_TYPE_REQUESTER_VERIFICATION,
      NftRegistryAddress = [], NftTokenId = [], AccessTokenRequestOf = None\<rparr>"

text \<open>
  The root of a two-leaf tree with a prefix, in the words of section 4.2 of the
  specification: a new tree with the prefix property, the first leaf, the second leaf,
  generated. The leaves of the document root tree, written out.
\<close>

definition twoLeafTreeRoot ::
  "('t, 'w) deps \<Rightarrow> string \<Rightarrow> LeafNode \<Rightarrow> LeafNode \<Rightarrow> error + bytes" where
  "twoLeafTreeRoot d prefix leaf1 leaf2 =
     (let tree = NewDocumentTree d
                   \<lparr>CompactProperties = True, EnableHashSorting = True,
                    ParentPrefix = NewLeafProperty prefix (compactProperties prefix)\<rparr>
      in case AddLeaf d tree leaf1 of
           Inl err \<Rightarrow> Inl err
         | Inr tree1 \<Rightarrow>
             (case AddLeaf d tree1 leaf2 of
                Inl err \<Rightarrow> Inl err
              | Inr tree2 \<Rightarrow>
                  (case Generate d tree2 of
                     Inl err \<Rightarrow> Inl err
                   | Inr tree3 \<Rightarrow> Inr (RootHash d tree3))))"

definition signingRootLeaf :: "bytes \<Rightarrow> LeafNode" where
  "signingRootLeaf h =
     \<lparr>LeafProperty = \<lparr>ReadableName = ''dr_tree.signing_root'', Compact = [4, 0, 0, 0, 0, 0, 0, 10]\<rparr>,
      LeafValue = [], LeafSalt = [], LeafHash = h, Hashed = True\<rparr>"

definition signaturesRootLeaf :: "bytes \<Rightarrow> LeafNode" where
  "signaturesRootLeaf h =
     \<lparr>LeafProperty = \<lparr>ReadableName = ''dr_tree.signatures_root'', Compact = [4, 0, 0, 0, 0, 0, 0, 6]\<rparr>,
      LeafValue = [], LeafSalt = [], LeafHash = h, Hashed = True\<rparr>"

definition sampleSignature :: Signature where
  "sampleSignature = \<lparr>SignerId = [1], PublicKey = [], SignatureBytes = [2], SigTimestamp = 0\<rparr>"

definition sampleSigned :: CoreDocument where
  "sampleSigned = sampleDocument\<lparr>SignatureDataOf := Some \<lparr>Signatures = [sampleSignature]\<rparr>\<rparr>"

definition sampleSignatureTree :: SampleTree where
  "sampleSignatureTree =
     \<lparr>stOptions = \<lparr>CompactProperties = True, EnableHashSorting = True,
                         ParentPrefix = NewLeafProperty SignaturesTreePrefix
                                          (compactProperties SignaturesTreePrefix)\<rparr>,
           stLeaves = sampleSignatureLeaves
                        (NewLeafProperty SignaturesTreePrefix (compactProperties SignaturesTreePrefix))
                        0 [sampleSignature],
           stFilled = True, stRoot = [1, 2]\<rparr>"

text \<open>
  The prefix of a field name is its first segment. The prefixes \<^verbatim>\<open>CreateProofs\<close> has a
  tree for, and a proof with hashes appended, as \<^verbatim>\<open>generateProofs\<close> appends them.
\<close>

definition fieldPrefix :: "string \<Rightarrow> string" where
  "fieldPrefix f = takeWhile (\<lambda>c. c \<noteq> CHR ''.'') f"

definition knownPrefixes :: "string \<Rightarrow> string set" where
  "knownPrefixes dataPrefix = {DRTreePrefix, dataPrefix, SignaturesTreePrefix, CDTreePrefix}"

definition withHashes :: "Proof \<Rightarrow> bytes list \<Rightarrow> Proof" where
  "withHashes pr hashes = pr\<lparr>SortedHashes := SortedHashes pr @ hashes\<rparr>"

definition sampleDataTree :: SampleTree where
  "sampleDataTree =
     \<lparr>stOptions = \<lparr>CompactProperties = True, EnableHashSorting = True,
                    ParentPrefix = NewLeafProperty ''po'' [0, 2, 0, 0]\<rparr>,
      stLeaves = [\<lparr>LeafProperty = \<lparr>ReadableName = ''po.number'', Compact = [0, 2, 0, 0, 0, 0, 0, 1]\<rparr>,
                   LeafValue = [5], LeafSalt = [], LeafHash = [7], Hashed = True\<rparr>],
      stFilled = True, stRoot = [7]\<rparr>"

definition sampleSalted :: CoreDocument where
  "sampleSalted = sampleSigned\<lparr>SignatureDataSalts := Some []\<rparr>"

definition sampleDRTree :: SampleTree where
  "sampleDRTree =
     \<lparr>stOptions = \<lparr>CompactProperties = True, EnableHashSorting = True,
                    ParentPrefix = NewLeafProperty ''dr_tree'' [4, 0, 0, 0]\<rparr>,
      stLeaves = [signingRootLeaf (replicate 32 6), signaturesRootLeaf [1, 2]],
      stFilled = True, stRoot = replicate 32 6 @ [1, 2]\<rparr>"

definition sampleCDTree :: SampleTree where
  "sampleCDTree =
     \<lparr>stOptions = \<lparr>CompactProperties = True, EnableHashSorting = True,
                    ParentPrefix = NewLeafProperty ''cd_tree'' [1, 0, 0, 0]\<rparr>,
      stLeaves = [\<lparr>LeafProperty = \<lparr>ReadableName = ''cd_tree.document_identifier'',
                                    Compact = [1, 0, 0, 0, 0, 0, 0, 1]\<rparr>,
                   LeafValue = [1], LeafSalt = [], LeafHash = [1], Hashed = True\<rparr>,
                  \<lparr>LeafProperty = \<lparr>ReadableName = ''cd_tree.document_type'',
                                    Compact = [1, 0, 0, 0, 0, 0, 0, 100]\<rparr>,
                   LeafValue = [], LeafSalt = replicate 32 0, LeafHash = replicate 32 0,
                   Hashed = True\<rparr>],
      stFilled = True, stRoot = 1 # replicate 32 0\<rparr>"

definition samplePoProof :: Proof where
  "samplePoProof =
     \<lparr>ProofProperty = ''po.number'', ProofValue = [5], ProofSalt = [], ProofHash = [7],
      SortedHashes = []\<rparr>"

text \<open>
  What \<^verbatim>\<open>AddNFT\<close> does to the sequence of NFTs, as a function on the sequence: a new
  entry at the end when the registry has none, the token replaced in the entry of the
  registry otherwise.
\<close>

definition storeNFT :: "NFT list \<Rightarrow> bytes \<Rightarrow> bytes \<Rightarrow> NFT list" where
  "storeNFT nfts registry tokenID =
     (case getStoredNFT nfts registry of
        None \<Rightarrow> nfts @ [\<lparr>RegistryId = registry @ replicate 12 0, TokenId = tokenID\<rparr>]
      | Some i \<Rightarrow> nfts[i := (nfts ! i)\<lparr>TokenId := tokenID\<rparr>])"

definition sampleNftDocument :: CoreDocument where
  "sampleNftDocument =
     sampleDocument\<lparr>Nfts := [\<lparr>RegistryId = paddedRegistry (replicate 20 8), TokenId = replicate 32 1\<rparr>]\<rparr>"

definition sampleNftReadDocument :: CoreDocument where
  "sampleNftReadDocument =
     sampleDocument
       \<lparr>Roles := [sampleRole,
                  \<lparr>RoleKey = [10], Collaborators = [],
                   RoleNfts = [replicate 20 8 @ replicate 32 1]\<rparr>],
        ReadRules := [\<lparr>ReadRoles = [[9]], ReadAction = ACTION_READ_SIGN\<rparr>,
                      \<lparr>ReadRoles = [[10]], ReadAction = ACTION_READ\<rparr>]\<rparr>"

definition sampleRegistry :: TokenRegistry where
  "sampleRegistry registry tokenID =
     (if registry = replicate 20 8 \<and> tokenID = replicate 32 1 then Inr (replicate 20 98)
      else Inl (External ''failed to get owner of''))"

text \<open>
  The document reached from a document after a number of stored links, if the links are
  stored that far: the notion the property of \<^verbatim>\<open>GetCurrentVersion\<close> is stated with.
\<close>

fun followLinks :: "repository \<Rightarrow> CoreDocument \<Rightarrow> nat \<Rightarrow> CoreDocument option" where
  "followLinks repo model 0 = Some model"
| "followLinks repo model (Suc n) =
     (case map_of repo (NextVersion model) of
        None \<Rightarrow> None
      | Some nextModel \<Rightarrow> followLinks repo nextModel n)"

definition sampleVersion :: "bytes \<Rightarrow> bytes \<Rightarrow> CoreDocument" where
  "sampleVersion current nextVersion =
     zeroCoreDocument\<lparr>DocumentIdentifier := [1], CurrentVersion := current, NextVersion := nextVersion\<rparr>"

definition sampleChain :: repository where
  "sampleChain = [([1], sampleVersion [1] [2]), ([2], sampleVersion [2] [3])]"

definition sampleCycle :: repository where
  "sampleCycle = [([1], sampleVersion [1] [2]), ([2], sampleVersion [2] [1])]"

section \<open>Helper lemmas\<close>

lemma fold_Collaborators:
  "fold (\<lambda>c r. r\<lparr>Collaborators := Collaborators r @ [c]\<rparr>) cs role
     = role\<lparr>Collaborators := Collaborators role @ cs\<rparr>"
  by (induction cs arbitrary: role) simp_all

lemma newRoleWithCollaborators_eq:
  "newRoleWithCollaborators d cs w =
     (if cs = [] then (None, w)
      else (Some \<lparr>RoleKey = fst (RandomSlice d idSize w), Collaborators = cs, RoleNfts = []\<rparr>,
            snd (RandomSlice d idSize w)))"
  by (simp add: newRoleWithCollaborators_def newRole_def fold_Collaborators split: prod.splits)

lemma filter_map_fold:
  "fold (\<lambda>c m. m(f c \<mapsto> ())) fs m0 k \<noteq> None \<longleftrightarrow> k \<in> f ` set fs \<or> m0 k \<noteq> None"
  by (induction fs arbitrary: m0) auto

lemma filter_loop_fold:
  "fold (\<lambda>x acc. if P x then acc else acc @ [x]) cs acc0 = acc0 @ filter (\<lambda>x. \<not> P x) cs"
  by (induction cs arbitrary: acc0) auto

lemma filterCollaborators_eq:
  "filterCollaborators d cs filterIDs =
     filter (\<lambda>c. ToLower (DIDString d c) \<notin> (\<lambda>x. ToLower (DIDString d x)) ` set filterIDs) cs"
  unfolding filterCollaborators_def Let_def
  by (simp add: filter_loop_fold filter_map_fold del: not_None_eq)

lemma filterCollaborators_Nil [simp]: "filterCollaborators d cs [] = cs"
  by (simp add: filterCollaborators_eq)

lemma setSalts_shape: "\<exists>s. snd (setSalts d cd) = cd\<lparr>CoredocumentSalts := s\<rparr>"
proof (cases "CoredocumentSalts cd")
  case None
  then show ?thesis
    by (cases "GenerateNewSalts d (CoreDocumentMsg cd) CDTreePrefix (compactProperties CDTreePrefix)")
       (auto simp: setSalts_def intro: exI [of _ None])
next
  case (Some a)
  then show ?thesis by (auto simp: setSalts_def intro: exI [of _ "Some a"])
qed


lemma addCollaboratorsToReadSignRules_eq:
  "addCollaboratorsToReadSignRules d cs cd w =
     (if cs = [] then (cd, w)
      else (cd\<lparr>Roles := Roles cd @
                  [\<lparr>RoleKey = fst (RandomSlice d idSize w), Collaborators = cs, RoleNfts = []\<rparr>],
               ReadRules := ReadRules cd @
                  [\<lparr>ReadRoles = [fst (RandomSlice d idSize w)], ReadAction = ACTION_READ_SIGN\<rparr>]\<rparr>,
            snd (RandomSlice d idSize w)))"
  by (simp add: addCollaboratorsToReadSignRules_def newRoleWithCollaborators_eq addNewReadRule_def)

lemma PrepareNewVersion_success:
  assumes "PrepareNewVersion d cd collaborators initSalts documentPrefix w = (Inr ncd, w')"
  shows "length (DocumentRoot cd) = idSize \<and>
         (\<exists>cs oldCs pre ver w1 salts.
            NewDIDsFromStrings d collaborators = Inr cs \<and>
            getCollaborators d cd [ACTION_READ_SIGN, ACTION_READ] = Inr oldCs \<and>
            GenerateHashPair d idSize w = ((pre, ver, None), w1) \<and>
            ncd = (addCollaboratorsToTransitionRules (filterCollaborators d cs oldCs) documentPrefix
                     (fst (addCollaboratorsToReadSignRules d (filterCollaborators d cs oldCs)
                             (newVersionBase cd pre ver) w1)))
                  \<lparr>CoredocumentSalts := salts\<rparr>)"
proof -
  from assms have len: "length (DocumentRoot cd) = idSize"
    by (auto simp: PrepareNewVersion_def split: if_splits)
  from assms len obtain cs where cs: "NewDIDsFromStrings d collaborators = Inr cs"
    by (cases "NewDIDsFromStrings d collaborators") (auto simp: PrepareNewVersion_def)
  obtain oldCs where old: "getCollaborators d cd [ACTION_READ_SIGN, ACTION_READ] = Inr oldCs"
    by (simp add: getCollaborators_def)
  then have gc: "GetCollaborators d cd [] = Inr oldCs"
    by (simp add: GetCollaborators_def)
  obtain pre ver err w1 where hp: "GenerateHashPair d idSize w = ((pre, ver, err), w1)"
    by (metis prod.exhaust)
  let ?ucs = "filterCollaborators d cs oldCs"
  let ?base = "newVersionBase cd pre ver"
  have pv: "populateVersions d
              (zeroCoreDocument
                 \<lparr>DocumentIdentifier := DocumentIdentifier cd,
                  PreviousRoot := DocumentRoot cd,
                  Roles := Roles cd,
                  ReadRules := ReadRules cd,
                  TransitionRules := TransitionRules cd,
                  Nfts := Nfts cd,
                  AccessTokens := AccessTokens cd,
                  SignatureDataOf := Some \<lparr>Signatures = []\<rparr>\<rparr>) (Some cd) w
            = ((err, ?base), w1)"
    by (simp add: populateVersions_def hp newVersionBase_def)
  let ?x = "addCollaboratorsToTransitionRules ?ucs documentPrefix
              (fst (addCollaboratorsToReadSignRules d ?ucs ?base w1))"
  from assms have err: "err = None"
    by (cases err) (simp_all add: PrepareNewVersion_def len cs gc pv Let_def)
  have "\<exists>salts. ncd = ?x\<lparr>CoredocumentSalts := salts\<rparr>"
  proof (cases initSalts)
    case False
    with assms have "ncd = ?x"
      by (simp add: PrepareNewVersion_def len cs gc pv err Let_def split: prod.splits)
    then have "ncd = ?x\<lparr>CoredocumentSalts := CoredocumentSalts ?x\<rparr>" by simp
    then show ?thesis by blast
  next
    case True
    obtain e y where ss: "setSalts d ?x = (e, y)" by (metis prod.exhaust)
    with assms True have "ncd = y"
      by (cases e) (simp_all add: PrepareNewVersion_def len cs gc pv err Let_def split: prod.splits)
    moreover from setSalts_shape [of d ?x] ss obtain s where "y = ?x\<lparr>CoredocumentSalts := s\<rparr>"
      by auto
    ultimately show ?thesis by blast
  qed
  with len cs old hp err show ?thesis by blast
qed


lemma sample_PrepareNewVersion:
  "\<exists>ncd w'. PrepareNewVersion sampleDeps sampleDocument
       [replicate 20 (CHR ''A''), replicate 20 (CHR ''b'')] False [0, 2, 0, 0] (0::nat) = (Inr ncd, w')"
  by (simp add: PrepareNewVersion_def sampleDocument_def zeroCoreDocument_def idSize_def
      sampleDeps_def GetCollaborators_def getCollaborators_def populateVersions_def Let_def
      split: prod.splits)

lemma sample_old_collaborators:
  "getCollaborators sampleDeps sampleDocument [ACTION_READ_SIGN, ACTION_READ] = Inr [replicate 20 97]"
  by (simp add: getCollaborators_def visitedRoles_def sampleDocument_def zeroCoreDocument_def
      sampleRole_def getRole_def List.map_filter_def sampleDeps_def BytesToAddress_def)


lemma sample_new_collaborators:
  "NewDIDsFromStrings sampleDeps [replicate 20 (CHR ''A''), replicate 20 (CHR ''b'')]
     = Inr [replicate 20 65, replicate 20 98]"
  by (simp add: sampleDeps_def bytesOfString_def)

lemma char_of_samples:
  "char_of (97::nat) = CHR ''a''" "char_of (98::nat) = CHR ''b''"
  by code_simp+

lemma sample_lowered:
  "ToLower (DIDString sampleDeps (replicate 20 65)) = replicate 20 (CHR ''a'')"
  "ToLower (DIDString sampleDeps (replicate 20 97)) = replicate 20 (CHR ''a'')"
  "ToLower (DIDString sampleDeps (replicate 20 98)) = replicate 20 (CHR ''b'')"
  by (simp_all add: sampleDeps_def ToLower_def toLowerChar_def char_of_samples)

lemma hashedLeaf_signing: "hashedLeaf DRTreePrefix SigningRootField h = signingRootLeaf h"
  by (simp add: hashedLeaf_def signingRootLeaf_def NewLeafProperty_def compactProperties_def
      DRTreePrefix_def SigningRootField_def CDRootField_def DataRootField_def DocumentTypeField_def
      SignaturesRootField_def CDTreePrefix_def SigningTreePrefix_def SignaturesTreePrefix_def)

lemma hashedLeaf_signatures: "hashedLeaf DRTreePrefix SignaturesRootField h = signaturesRootLeaf h"
  by (simp add: hashedLeaf_def signaturesRootLeaf_def NewLeafProperty_def compactProperties_def
      DRTreePrefix_def SigningRootField_def CDRootField_def DataRootField_def DocumentTypeField_def
      SignaturesRootField_def CDTreePrefix_def SigningTreePrefix_def SignaturesTreePrefix_def)

lemma DocumentRootTree_root:
  assumes "length (SigningRoot cd) = 32"
    and "getSignatureDataTree d cd = (Inr signatureTree, cd1)"
  shows "map_sum id (RootHash d) (fst (DocumentRootTree d cd)) =
         twoLeafTreeRoot d DRTreePrefix (signingRootLeaf (SigningRoot cd))
           (signaturesRootLeaf (RootHash d signatureTree))"
proof -
  have ne: "DRTreePrefix \<noteq> []" by (simp add: DRTreePrefix_def)
  show ?thesis
    using assms ne
    by (simp add: DocumentRootTree_def twoLeafTreeRoot_def NewDefaultTreeWithPrefix_def idSize_def
        hashedLeaf_signing hashedLeaf_signatures Let_def split: sum.splits)
qed

lemma sample_signature_tree:
  "getSignatureDataTree sampleDeps sampleSigned =
     (Inr sampleSignatureTree,
      sampleSigned\<lparr>SignatureDataSalts := Some []\<rparr>)"
  by (simp add: getSignatureDataTree_def setSignatureDataSalts_def GenerateNewSalts_def
      NewDefaultTreeWithPrefix_def sampleDeps_def sampleSigned_def sampleDocument_def
      zeroCoreDocument_def sampleLeaves_def sampleSignature_def SignaturesTreePrefix_def Let_def
      sampleSignatureTree_def)


lemma sample_two_leaf_root:
  "twoLeafTreeRoot sampleDeps DRTreePrefix (signingRootLeaf (replicate 32 6)) (signaturesRootLeaf [1, 2])
     = Inr (replicate 32 6 @ [1, 2])"
  by (simp add: twoLeafTreeRoot_def sampleDeps_def signingRootLeaf_def signaturesRootLeaf_def)

lemma Split_hd: "\<exists>rest. Split f c = takeWhile (\<lambda>x. x \<noteq> c) f # rest"
  by (induction f) (auto split: list.splits)

lemma index0_Split: "index0 (Split f (CHR ''.'')) = Inr (fieldPrefix f)"
  using Split_hd [of f "CHR ''.''"] by (auto simp: index0_def fieldPrefix_def)

lemma generateProofsFrom_success:
  "generateProofsFrom d tp fs acc = Inr prfs \<Longrightarrow>
   \<exists>new. prfs = acc @ new \<and> length new = length fs \<and>
     (\<forall>i<length fs. \<exists>t pr. tp (fieldPrefix (fs ! i)) = Some t \<and>
        CreateProof d (fst t) (fs ! i) = Inr pr \<and>
        new ! i = pr\<lparr>SortedHashes := SortedHashes pr @ snd t\<rparr>)"
proof (induction fs arbitrary: acc)
  case Nil
  then show ?case by simp
next
  case (Cons f fs)
  from Cons.prems obtain t where t: "tp (fieldPrefix f) = Some t"
    by (cases "tp (fieldPrefix f)") (auto simp: index0_Split)
  from Cons.prems t obtain pr where pr: "CreateProof d (fst t) f = Inr pr"
    by (cases "CreateProof d (fst t) f") (auto simp: index0_Split)
  let ?p = "pr\<lparr>SortedHashes := SortedHashes pr @ snd t\<rparr>"
  from Cons.prems t pr have "generateProofsFrom d tp fs (acc @ [?p]) = Inr prfs"
    by (simp add: index0_Split Let_def)
  from Cons.IH [OF this] obtain new where
    new: "prfs = (acc @ [?p]) @ new" "length new = length fs"
      "\<forall>i<length fs. \<exists>t pr. tp (fieldPrefix (fs ! i)) = Some t \<and>
        CreateProof d (fst t) (fs ! i) = Inr pr \<and>
        new ! i = pr\<lparr>SortedHashes := SortedHashes pr @ snd t\<rparr>"
    by blast
  have "\<forall>i<length (f # fs). \<exists>t pr. tp (fieldPrefix ((f # fs) ! i)) = Some t \<and>
        CreateProof d (fst t) ((f # fs) ! i) = Inr pr \<and>
        (?p # new) ! i = pr\<lparr>SortedHashes := SortedHashes pr @ snd t\<rparr>"
  proof (intro allI impI)
    fix i assume "i < length (f # fs)"
    then show "\<exists>t pr. tp (fieldPrefix ((f # fs) ! i)) = Some t \<and>
        CreateProof d (fst t) ((f # fs) ! i) = Inr pr \<and>
        (?p # new) ! i = pr\<lparr>SortedHashes := SortedHashes pr @ snd t\<rparr>"
      using t pr new(3) by (cases i) auto
  qed
  with new(1,2) show ?case
    by (intro exI [of _ "?p # new"]) simp
qed

lemma generateProofsFrom_unknown:
  "\<forall>g\<in>set before. \<exists>t pr. tp (fieldPrefix g) = Some t \<and> CreateProof d (fst t) g = Inr pr \<Longrightarrow>
   tp (fieldPrefix f) = None \<Longrightarrow>
   generateProofsFrom d tp (before @ f # after) acc = Inl PrefixTreeNotFound"
proof (induction before arbitrary: acc)
  case Nil
  then show ?case by (simp add: index0_Split)
next
  case (Cons g before)
  from Cons.prems(1) obtain t pr where
    "tp (fieldPrefix g) = Some t" "CreateProof d (fst t) g = Inr pr" by auto
  moreover have "generateProofsFrom d tp (before @ f # after)
                   (acc @ [pr\<lparr>SortedHashes := SortedHashes pr @ snd t\<rparr>]) = Inl PrefixTreeNotFound"
    using Cons.prems by (intro Cons.IH) auto
  ultimately show ?case by (simp add: index0_Split Let_def)
qed

lemma generateProofsFrom_error:
  "f \<in> set fs \<Longrightarrow> tp (fieldPrefix f) = None \<Longrightarrow> \<exists>err. generateProofsFrom d tp fs acc = Inl err"
proof (induction fs arbitrary: acc)
  case Nil
  then show ?case by simp
next
  case (Cons g fs)
  show ?case
  proof (cases "g = f")
    case True
    with Cons.prems show ?thesis by (simp add: index0_Split)
  next
    case False
    with Cons.prems have "f \<in> set fs" by simp
    from Cons.IH [OF this Cons.prems(2)] show ?thesis
      by (auto simp: index0_Split Let_def split: option.splits sum.splits)
  qed
qed

lemma prefixes_distinct:
  "CDTreePrefix \<noteq> SignaturesTreePrefix" "CDTreePrefix \<noteq> DRTreePrefix"
  "SignaturesTreePrefix \<noteq> DRTreePrefix"
  by (simp_all add: CDTreePrefix_def SignaturesTreePrefix_def DRTreePrefix_def)

lemma proofTrees_cd:
  "proofTrees d drTree dataTree sigTree cdTree dataPrefix srHash CDTreePrefix
     = Some (cdTree, [RootHash d dataTree, RootHash d sigTree])"
  by (simp add: proofTrees_def newTreeProof_def Let_def)

lemma proofTrees_signatures:
  "proofTrees d drTree dataTree sigTree cdTree dataPrefix srHash SignaturesTreePrefix
     = Some (sigTree, [srHash])"
  using prefixes_distinct by (simp add: proofTrees_def newTreeProof_def Let_def)

lemma proofTrees_data:
  "dataPrefix \<noteq> CDTreePrefix \<Longrightarrow> dataPrefix \<noteq> SignaturesTreePrefix \<Longrightarrow>
   proofTrees d drTree dataTree sigTree cdTree dataPrefix srHash dataPrefix
     = Some (dataTree, [RootHash d cdTree, RootHash d sigTree])"
  by (simp add: proofTrees_def newTreeProof_def Let_def)

lemma proofTrees_dom:
  "dom (proofTrees d drTree dataTree sigTree cdTree dataPrefix srHash)
     = {DRTreePrefix, dataPrefix, SignaturesTreePrefix, CDTreePrefix}"
  by (auto simp: proofTrees_def newTreeProof_def Let_def)


lemma CreateProofs_trees:
  assumes "DocumentRootTree d cd = (Inr drTree, cd1)"
    and "getSignatureDataTree d cd1 = (Inr sigTree, cd2)"
    and "documentTree d cd2 docType = Inr cdTree"
    and "GetSigningRootHash d cd2 = (Inr srHash, cd3)"
    and "getDataTreePrefix d dataTree = Inr dataPrefix"
  shows "fst (CreateProofs d cd docType dataTree fieldNames) =
         generateProofsFrom d (proofTrees d drTree dataTree sigTree cdTree dataPrefix srHash)
           fieldNames []"
  using assms by (simp add: CreateProofs_def generateProofs_def)

lemma CreateProofs_success:
  assumes "fst (CreateProofs d cd docType dataTree fieldNames) = Inr prfs"
  shows "\<exists>drTree cd1 sigTree cd2 cdTree srHash cd3 dataPrefix.
           DocumentRootTree d cd = (Inr drTree, cd1) \<and>
           getSignatureDataTree d cd1 = (Inr sigTree, cd2) \<and>
           documentTree d cd2 docType = Inr cdTree \<and>
           GetSigningRootHash d cd2 = (Inr srHash, cd3) \<and>
           getDataTreePrefix d dataTree = Inr dataPrefix"
proof -
  obtain r1 cd1 where a: "DocumentRootTree d cd = (r1, cd1)" by (metis prod.exhaust)
  with assms obtain drTree where r1: "r1 = Inr drTree"
    by (cases r1) (simp_all add: CreateProofs_def)
  obtain r2 cd2 where b: "getSignatureDataTree d cd1 = (r2, cd2)" by (metis prod.exhaust)
  with assms a r1 obtain sigTree where r2: "r2 = Inr sigTree"
    by (cases r2) (simp_all add: CreateProofs_def)
  from assms a r1 b r2 obtain cdTree where c: "documentTree d cd2 docType = Inr cdTree"
    by (cases "documentTree d cd2 docType") (simp_all add: CreateProofs_def)
  obtain r4 cd3 where e: "GetSigningRootHash d cd2 = (r4, cd3)" by (metis prod.exhaust)
  with assms a r1 b r2 c obtain srHash where r4: "r4 = Inr srHash"
    by (cases r4) (simp_all add: CreateProofs_def)
  from assms a r1 b r2 c e r4 obtain dataPrefix where "getDataTreePrefix d dataTree = Inr dataPrefix"
    by (cases "getDataTreePrefix d dataTree") (simp_all add: CreateProofs_def)
  with a r1 b r2 c e r4 show ?thesis by blast
qed

lemmas name_defs =
  CDRootField_def DataRootField_def DocumentTypeField_def SignaturesRootField_def
  SigningRootField_def DRTreePrefix_def CDTreePrefix_def SigningTreePrefix_def
  SignaturesTreePrefix_def

lemma sample_salted_signature_tree:
  "getSignatureDataTree sampleDeps sampleSalted = (Inr sampleSignatureTree, sampleSalted)"
  by (simp add: getSignatureDataTree_def setSignatureDataSalts_def GenerateNewSalts_def
      NewDefaultTreeWithPrefix_def sampleDeps_def sampleSalted_def sampleSigned_def sampleDocument_def
      zeroCoreDocument_def sampleLeaves_def sampleSignature_def SignaturesTreePrefix_def Let_def
      sampleSignatureTree_def)

lemma sample_dr_tree:
  "DocumentRootTree sampleDeps sampleSigned = (Inr sampleDRTree, sampleSalted)"
  "DocumentRootTree sampleDeps sampleSalted = (Inr sampleDRTree, sampleSalted)"
proof -
  have sr: "SigningRoot sampleSigned = replicate 32 6" "SigningRoot sampleSalted = replicate 32 6"
    by (simp_all add: sampleSalted_def sampleSigned_def sampleDocument_def zeroCoreDocument_def)
  have rh: "RootHash sampleDeps sampleSignatureTree = [1, 2]"
    by (simp add: sampleDeps_def sampleSignatureTree_def)
  have build: "AddLeaf sampleDeps
                 (NewDefaultTreeWithPrefix sampleDeps salts DRTreePrefix (compactProperties DRTreePrefix))
                 (signingRootLeaf (replicate 32 6)) =
               Inr \<lparr>stOptions = \<lparr>CompactProperties = True, EnableHashSorting = True,
                                  ParentPrefix = NewLeafProperty ''dr_tree'' [4, 0, 0, 0]\<rparr>,
                    stLeaves = [signingRootLeaf (replicate 32 6)], stFilled = False, stRoot = []\<rparr>"
    for salts
    by (simp add: sampleDeps_def NewDefaultTreeWithPrefix_def compactProperties_def name_defs)
  show "DocumentRootTree sampleDeps sampleSigned = (Inr sampleDRTree, sampleSalted)"
    by (simp add: DocumentRootTree_def sr idSize_def hashedLeaf_signing hashedLeaf_signatures
        build sample_signature_tree sampleSalted_def [symmetric] rh)
       (simp add: sampleDeps_def sampleDRTree_def signingRootLeaf_def signaturesRootLeaf_def)
  show "DocumentRootTree sampleDeps sampleSalted = (Inr sampleDRTree, sampleSalted)"
    by (simp add: DocumentRootTree_def sr idSize_def hashedLeaf_signing hashedLeaf_signatures
        build sample_salted_signature_tree rh)
       (simp add: sampleDeps_def sampleDRTree_def signingRootLeaf_def signaturesRootLeaf_def)
qed

lemma sample_cd_tree: "documentTree sampleDeps sampleSalted [] = Inr sampleCDTree"
  by (simp add: documentTree_def NewDefaultTreeWithPrefix_def sampleDeps_def sampleLeaves_def
      prefixedName_def NewLeafProperty_def compactProperties_def name_defs bytesOfString_def
      sampleCDTree_def sampleSalted_def sampleSigned_def sampleDocument_def zeroCoreDocument_def)

lemma sample_signing_root_hash:
  "GetSigningRootHash sampleDeps sampleSalted = (Inr (replicate 32 6), sampleSalted)"
  by (simp add: GetSigningRootHash_def sample_dr_tree)
     (simp add: sampleDeps_def sampleCreateProof_def sampleDRTree_def signingRootLeaf_def
       signaturesRootLeaf_def name_defs)

lemma sample_data_prefix:
  "getDataTreePrefix sampleDeps sampleDataTree = Inr ''po''"
  by (simp add: getDataTreePrefix_def sampleDeps_def sampleDataTree_def index0_def)


lemma sample_prefixes:
  "fieldPrefix ''po.number'' = ''po''" "fieldPrefix ''xx.y'' = ''xx''"
  "fieldPrefix ''po.missing'' = ''po''"
  by (simp_all add: fieldPrefix_def)

lemma sample_root_hashes:
  "RootHash sampleDeps sampleCDTree = 1 # replicate 32 0"
  "RootHash sampleDeps sampleSignatureTree = [1, 2]"
  "RootHash sampleDeps sampleDataTree = [7]"
  by (simp_all add: sampleDeps_def sampleCDTree_def sampleSignatureTree_def sampleDataTree_def)

lemma sample_po_proof:
  "CreateProof sampleDeps sampleDataTree ''po.number'' = Inr samplePoProof"
  by (simp add: sampleDeps_def sampleCreateProof_def sampleDataTree_def samplePoProof_def)

lemma sample_po_run:
  "fst (CreateProofs sampleDeps sampleSigned [] sampleDataTree [''po.number''])
     = Inr [withHashes samplePoProof [1 # replicate 32 0, [1, 2]]]"
  unfolding CreateProofs_trees [OF sample_dr_tree(1) sample_salted_signature_tree sample_cd_tree
      sample_signing_root_hash sample_data_prefix]
  by (simp add: index0_Split sample_prefixes proofTrees_def newTreeProof_def name_defs
      sample_po_proof sample_root_hashes withHashes_def del: Split.simps)

lemma PrepareNewVersion_no_collaborators:
  assumes "NewDIDsFromStrings d [] = Inr []"
    and "PrepareNewVersion d cd [] initSalts documentPrefix w = (Inr pcd, w')"
  shows "Nfts pcd = Nfts cd \<and> Roles pcd = Roles cd \<and> ReadRules pcd = ReadRules cd"
proof -
  from PrepareNewVersion_success [OF assms(2)] assms(1) obtain oldCs pre ver w1 salts where
    "pcd = (addCollaboratorsToTransitionRules (filterCollaborators d [] oldCs) documentPrefix
                   (fst (addCollaboratorsToReadSignRules d (filterCollaborators d [] oldCs)
                           (newVersionBase cd pre ver) w1)))
                \<lparr>CoredocumentSalts := salts\<rparr>"
    by auto
  then show ?thesis
    by (simp add: filterCollaborators_eq addCollaboratorsToTransitionRules_def
        addCollaboratorsToReadSignRules_eq newVersionBase_def zeroCoreDocument_def)
qed

lemma getStoredNFT_bound: "getStoredNFT nfts registry = Some i \<Longrightarrow> i < length nfts"
  by (induction nfts arbitrary: i) (auto split: if_splits)

lemma length_storeNFT:
  "length (storeNFT nfts registry tokenID) =
     (if getStoredNFT nfts registry = None then length nfts + 1 else length nfts)"
  by (auto simp: storeNFT_def)

lemma addNFTToReadRules_success:
  assumes "addNFTToReadRules d registry tokenID cd w = ((None, ncd), w')"
    and "length registry + length tokenID = 52"
  shows "Nfts ncd = Nfts cd \<and>
         (\<exists>key. Roles ncd = Roles cd @ [\<lparr>RoleKey = key, Collaborators = [], RoleNfts = [registry @ tokenID]\<rparr>] \<and>
                ReadRules ncd = ReadRules cd @ [\<lparr>ReadRoles = [key], ReadAction = ACTION_READ\<rparr>])"
proof -
  obtain k w1 where k: "RandomSlice d idSize w = (k, w1)" by (metis prod.exhaust)
  let ?cd1 = "addNewReadRule k ACTION_READ
                (cd\<lparr>Roles := Roles cd @ [\<lparr>RoleKey = k, Collaborators = [], RoleNfts = [registry @ tokenID]\<rparr>]\<rparr>)"
  from assms k have "ncd = snd (setSalts d ?cd1)"
    by (simp add: addNFTToReadRules_def ConstructNFT_def nftByteCount_def newRole_def Let_def
        split: prod.splits)
  with setSalts_shape [of d ?cd1] obtain s where "ncd = ?cd1\<lparr>CoredocumentSalts := s\<rparr>"
    by auto
  then show ?thesis by (auto simp: addNewReadRule_def)
qed

lemma AddNFT_fields:
  assumes "length (DocumentRoot cd) = 32" and "length registry = 20" and "length tokenID = 32"
    and "NewDIDsFromStrings d [] = Inr []"
    and "AddNFT d cd grantReadAccess registry tokenID w = (Inr ncd, w')"
  shows "Nfts ncd = storeNFT (Nfts cd) registry tokenID \<and>
         length (Nfts ncd) =
           (if getStoredNFT (Nfts cd) registry = None then length (Nfts cd) + 1
            else length (Nfts cd)) \<and>
         (if grantReadAccess
          then \<exists>key. Roles ncd = Roles cd @
                        [\<lparr>RoleKey = key, Collaborators = [], RoleNfts = [registry @ tokenID]\<rparr>] \<and>
                     ReadRules ncd = ReadRules cd @ [\<lparr>ReadRoles = [key], ReadAction = ACTION_READ\<rparr>]
          else Roles ncd = Roles cd \<and> ReadRules ncd = ReadRules cd)"
proof -
  obtain r w1 where p: "PrepareNewVersion d cd [] False [] w = (r, w1)" by (metis prod.exhaust)
  with assms(5) obtain pcd where r: "r = Inr pcd"
    by (cases r) (simp_all add: AddNFT_def)
  from PrepareNewVersion_no_collaborators [OF assms(4) p [unfolded r]]
  have same: "Nfts pcd = Nfts cd" "Roles pcd = Roles cd" "ReadRules pcd = ReadRules cd"
    by simp_all
  let ?ncd1 = "pcd\<lparr>Nfts := storeNFT (Nfts pcd) registry tokenID\<rparr>"
  have stored: "(case getStoredNFT (Nfts pcd) registry of
                   None \<Rightarrow> pcd\<lparr>Nfts := Nfts pcd @
                             [\<lparr>RegistryId = paddedRegistry registry, TokenId = tokenID\<rparr>]\<rparr>
                 | Some i \<Rightarrow> pcd\<lparr>Nfts := (Nfts pcd)[i := (Nfts pcd ! i)\<lparr>TokenId := tokenID\<rparr>]\<rparr>)
                = ?ncd1"
    by (simp add: storeNFT_def paddedRegistry_def split: option.splits)
  have fields: "Nfts ncd = storeNFT (Nfts cd) registry tokenID \<and>
         (if grantReadAccess
          then \<exists>key. Roles ncd = Roles cd @
                        [\<lparr>RoleKey = key, Collaborators = [], RoleNfts = [registry @ tokenID]\<rparr>] \<and>
                     ReadRules ncd = ReadRules cd @ [\<lparr>ReadRoles = [key], ReadAction = ACTION_READ\<rparr>]
          else Roles ncd = Roles cd \<and> ReadRules ncd = ReadRules cd)"
  proof (cases grantReadAccess)
    case False
    with assms(5) p r stored have "ncd = ?ncd1"
      by (simp add: AddNFT_def Let_def)
    with False same show ?thesis by simp
  next
    case True
    obtain e x w2 where a: "addNFTToReadRules d registry tokenID ?ncd1 w1 = ((e, x), w2)"
      by (metis prod.exhaust)
    with assms(5) p r stored True have "e = None \<and> x = ncd"
      by (cases e) (simp_all add: AddNFT_def Let_def)
    with a have "addNFTToReadRules d registry tokenID ?ncd1 w1 = ((None, ncd), w2)" by simp
    from addNFTToReadRules_success [OF this] assms(2,3) True same show ?thesis by simp
  qed
  then show ?thesis by (simp add: length_storeNFT)
qed


lemma sample_nft_document:
  "length (DocumentRoot sampleNftDocument) = 32"
  "Nfts sampleNftDocument = [\<lparr>RegistryId = paddedRegistry (replicate 20 8), TokenId = replicate 32 1\<rparr>]"
  "Roles sampleNftDocument = [sampleRole]"
  "ReadRules sampleNftDocument = [\<lparr>ReadRoles = [[9]], ReadAction = ACTION_READ_SIGN\<rparr>]"
  by (simp_all add: sampleNftDocument_def sampleDocument_def zeroCoreDocument_def)

lemma sample_no_collaborators: "NewDIDsFromStrings sampleDeps [] = Inr []"
  by (simp add: sampleDeps_def)

lemma sample_AddNFT:
  "\<exists>ncd w'. AddNFT sampleDeps sampleNftDocument True (replicate 20 8) (replicate 32 2) (0::nat)
     = (Inr ncd, w')"
  by (simp add: AddNFT_def PrepareNewVersion_def sampleNftDocument_def sampleDocument_def
      zeroCoreDocument_def idSize_def sampleDeps_def GetCollaborators_def getCollaborators_def
      populateVersions_def addNFTToReadRules_def ConstructNFT_def nftByteCount_def newRole_def
      setSalts_def GenerateNewSalts_def NewDefaultTreeWithPrefix_def addNewReadRule_def
      addCollaboratorsToReadSignRules_eq addCollaboratorsToTransitionRules_def Let_def
      split: prod.splits)

lemma sample_stored:
  "storeNFT [\<lparr>RegistryId = paddedRegistry (replicate 20 8), TokenId = replicate 32 1\<rparr>]
     (replicate 20 8) (replicate 32 2)
   = [\<lparr>RegistryId = paddedRegistry (replicate 20 8), TokenId = replicate 32 2\<rparr>]"
  by (simp add: storeNFT_def)

lemma sample_nft_bound:
  "nftBoundWithReadAccess sampleNftReadDocument (replicate 20 8) (replicate 32 1)"
  by (simp add: nftBoundWithReadAccess_def findRole_def visitedRoles_def sampleNftReadDocument_def
      sampleDocument_def zeroCoreDocument_def sampleRole_def getRole_def List.map_filter_def
      isNFTInRole_def ConstructNFT_def nftByteCount_def)

lemma sample_readers:
  "AccountCanRead sampleNftReadDocument (replicate 20 97)"
  "\<not> AccountCanRead sampleNftReadDocument (replicate 20 98)"
  by (simp_all add: AccountCanRead_def findRole_def visitedRoles_def sampleNftReadDocument_def
      sampleDocument_def zeroCoreDocument_def sampleRole_def getRole_def List.map_filter_def
      isAccountInRole_def)

lemma sample_owner:
  "sampleRegistry (replicate 20 8) (replicate 32 1) = Inr (replicate 20 98)"
  by (simp add: sampleRegistry_def)

lemma followLinks_add:
  "followLinks repo model (a + b) =
     (case followLinks repo model a of None \<Rightarrow> None | Some m \<Rightarrow> followLinks repo m b)"
  by (induction a arbitrary: model) (auto split: option.splits)

lemma followLinks_end_unique:
  assumes "followLinks repo model a = Some m" "map_of repo (NextVersion m) = None"
    and "followLinks repo model b = Some m'"
  shows "b \<le> a"
proof (rule ccontr)
  assume "\<not> b \<le> a"
  then obtain c where b: "b = a + Suc c" by (metis add_Suc_right less_imp_Suc_add not_le)
  from assms(3) show False
    unfolding b followLinks_add by (simp add: assms(1,2))
qed

lemma no_loop_on_ending_chain:
  assumes "followLinks repo model n = Some m" "map_of repo (NextVersion m) = None"
    and "followLinks repo model (Suc i) = Some model"
  shows False
proof -
  have "followLinks repo model (Suc i + n) = Some m"
    by (simp only: followLinks_add assms(3)) (simp add: assms(1))
  from followLinks_end_unique [OF assms(1,2) this] show False by simp
qed

lemma walkVersions_ends:
  "followLinks repo model n = Some m \<Longrightarrow> map_of repo (NextVersion m) = None \<Longrightarrow>
   (\<forall>i<n. \<forall>mi. followLinks repo model i = Some mi \<longrightarrow> NextVersion mi \<notin> set visited) \<Longrightarrow>
   walkVersions repo visited model = Inr m"
proof (induction n arbitrary: model visited)
  case 0
  then show ?case by simp
next
  case (Suc n)
  from Suc.prems(1) obtain m1 where
    m1: "map_of repo (NextVersion model) = Some m1" and rest: "followLinks repo m1 n = Some m"
    by (auto split: option.splits)
  from Suc.prems(3) have fresh: "NextVersion model \<notin> set visited" by force
  have "\<forall>i<n. \<forall>mi. followLinks repo m1 i = Some mi \<longrightarrow>
          NextVersion mi \<notin> set (NextVersion model # visited)"
  proof (intro allI impI)
    fix i mi assume i: "i < n" and mi: "followLinks repo m1 i = Some mi"
    from mi m1 have step: "followLinks repo model (Suc i) = Some mi" by simp
    with Suc.prems(3) i have "NextVersion mi \<notin> set visited" by (metis Suc_less_eq)
    moreover have "NextVersion mi \<noteq> NextVersion model"
    proof
      assume eq: "NextVersion mi = NextVersion model"
      have "followLinks repo m1 (i + 1) = Some m1"
        by (simp only: followLinks_add mi) (simp add: eq m1)
      then have "followLinks repo m1 (Suc i) = Some m1" by simp
      from no_loop_on_ending_chain [OF rest Suc.prems(2) this] show False .
    qed
    ultimately show "NextVersion mi \<notin> set (NextVersion model # visited)" by simp
  qed
  from Suc.IH [OF rest Suc.prems(2) this] m1 fresh show ?case by simp
qed

lemma walkVersions_endless:
  "(\<forall>n. followLinks repo model n \<noteq> None) \<Longrightarrow> walkVersions repo visited model = Inl CyclicVersions"
proof (induction repo visited model rule: walkVersions.induct)
  case (1 repo visited model)
  from "1.prems" [rule_format, of 1] obtain m1 where m1: "map_of repo (NextVersion model) = Some m1"
    by (auto split: option.splits)
  show ?case
  proof (cases "NextVersion model \<in> set visited")
    case True
    with m1 show ?thesis by simp
  next
    case False
    have "\<forall>n. followLinks repo m1 n \<noteq> None"
    proof
      fix n from "1.prems" [rule_format, of "Suc n"] m1 show "followLinks repo m1 n \<noteq> None" by simp
    qed
    from "1.IH" [OF m1 False this] m1 False show ?thesis by simp
  qed
qed


lemma sample_next [simp]: "NextVersion (sampleVersion c n) = n"
  by (simp add: sampleVersion_def zeroCoreDocument_def)

lemma sample_cycle_endless:
  "followLinks sampleCycle (sampleVersion [1] [2]) n \<noteq> None \<and>
   followLinks sampleCycle (sampleVersion [2] [1]) n \<noteq> None"
  by (induction n) (simp_all add: sampleCycle_def)

lemma CreateProofs_with_trees:
  assumes "DocumentRootTree d cd = (Inr drTree, cd1)"
    and "getSignatureDataTree d cd1 = (Inr sigTree, cd2)"
    and "documentTree d cd2 docType = Inr cdTree"
    and "GetSigningRootHash d cd2 = (Inr srHash, cd3)"
    and "getDataTreePrefix d dataTree = Inr dataPrefix"
  shows "(\<forall>prfs. fst (CreateProofs d cd docType dataTree fieldNames) = Inr prfs \<longrightarrow>
            length prfs = length fieldNames \<and>
            (\<forall>i<length fieldNames.
               (fieldPrefix (fieldNames ! i) = dataPrefix \<and> dataPrefix \<noteq> CDTreePrefix \<and>
                dataPrefix \<noteq> SignaturesTreePrefix \<longrightarrow>
                  (\<exists>pr. CreateProof d dataTree (fieldNames ! i) = Inr pr \<and>
                     prfs ! i = withHashes pr [RootHash d cdTree, RootHash d sigTree])) \<and>
               (fieldPrefix (fieldNames ! i) = CDTreePrefix \<longrightarrow>
                  (\<exists>pr. CreateProof d cdTree (fieldNames ! i) = Inr pr \<and>
                     prfs ! i = withHashes pr [RootHash d dataTree, RootHash d sigTree])) \<and>
               (fieldPrefix (fieldNames ! i) = SignaturesTreePrefix \<longrightarrow>
                  (\<exists>pr. CreateProof d sigTree (fieldNames ! i) = Inr pr \<and>
                     prfs ! i = withHashes pr [srHash])))) \<and>
         (\<forall>f\<in>set fieldNames. fieldPrefix f \<notin> knownPrefixes dataPrefix \<longrightarrow>
            (\<exists>err. fst (CreateProofs d cd docType dataTree fieldNames) = Inl err)) \<and>
         (\<forall>before f after.
            fieldNames = before @ f # after \<and> fieldPrefix f \<notin> knownPrefixes dataPrefix \<and>
            (\<forall>g\<in>set before. \<exists>pr. fst (CreateProofs d cd docType dataTree [g]) = Inr [pr]) \<longrightarrow>
            fst (CreateProofs d cd docType dataTree fieldNames) = Inl PrefixTreeNotFound)"
proof -
  let ?tp = "proofTrees d drTree dataTree sigTree cdTree dataPrefix srHash"
  note run = CreateProofs_trees [OF assms]
  have unknown: "?tp (fieldPrefix f) = None" if "fieldPrefix f \<notin> knownPrefixes dataPrefix" for f
    using that proofTrees_dom [of d drTree dataTree sigTree cdTree dataPrefix srHash]
    by (auto simp: knownPrefixes_def dom_def)
  have part1: "length prfs = length fieldNames \<and>
            (\<forall>i<length fieldNames.
               (fieldPrefix (fieldNames ! i) = dataPrefix \<and> dataPrefix \<noteq> CDTreePrefix \<and>
                dataPrefix \<noteq> SignaturesTreePrefix \<longrightarrow>
                  (\<exists>pr. CreateProof d dataTree (fieldNames ! i) = Inr pr \<and>
                     prfs ! i = withHashes pr [RootHash d cdTree, RootHash d sigTree])) \<and>
               (fieldPrefix (fieldNames ! i) = CDTreePrefix \<longrightarrow>
                  (\<exists>pr. CreateProof d cdTree (fieldNames ! i) = Inr pr \<and>
                     prfs ! i = withHashes pr [RootHash d dataTree, RootHash d sigTree])) \<and>
               (fieldPrefix (fieldNames ! i) = SignaturesTreePrefix \<longrightarrow>
                  (\<exists>pr. CreateProof d sigTree (fieldNames ! i) = Inr pr \<and>
                     prfs ! i = withHashes pr [srHash])))"
    if ok: "fst (CreateProofs d cd docType dataTree fieldNames) = Inr prfs" for prfs
  proof -
    from ok run have "generateProofsFrom d ?tp fieldNames [] = Inr prfs" by simp
    from generateProofsFrom_success [OF this] have
      len: "length prfs = length fieldNames" and
      each: "\<forall>i<length fieldNames. \<exists>t pr. ?tp (fieldPrefix (fieldNames ! i)) = Some t \<and>
               CreateProof d (fst t) (fieldNames ! i) = Inr pr \<and>
               prfs ! i = pr\<lparr>SortedHashes := SortedHashes pr @ snd t\<rparr>"
      by auto
    show ?thesis
    proof (intro conjI allI impI)
      show "length prfs = length fieldNames" by (rule len)
    next
      fix i assume i: "i < length fieldNames"
        and p: "fieldPrefix (fieldNames ! i) = dataPrefix \<and> dataPrefix \<noteq> CDTreePrefix \<and>
                dataPrefix \<noteq> SignaturesTreePrefix"
      from each i p proofTrees_data [of dataPrefix d drTree dataTree sigTree cdTree srHash]
      show "\<exists>pr. CreateProof d dataTree (fieldNames ! i) = Inr pr \<and>
                 prfs ! i = withHashes pr [RootHash d cdTree, RootHash d sigTree]"
        by (auto simp: withHashes_def)
    next
      fix i assume i: "i < length fieldNames"
        and p: "fieldPrefix (fieldNames ! i) = CDTreePrefix"
      from each i p proofTrees_cd [of d drTree dataTree sigTree cdTree dataPrefix srHash]
      show "\<exists>pr. CreateProof d cdTree (fieldNames ! i) = Inr pr \<and>
                 prfs ! i = withHashes pr [RootHash d dataTree, RootHash d sigTree]"
        by (auto simp: withHashes_def)
    next
      fix i assume i: "i < length fieldNames"
        and p: "fieldPrefix (fieldNames ! i) = SignaturesTreePrefix"
      from each i p proofTrees_signatures [of d drTree dataTree sigTree cdTree dataPrefix srHash]
      show "\<exists>pr. CreateProof d sigTree (fieldNames ! i) = Inr pr \<and>
                 prfs ! i = withHashes pr [srHash]"
        by (auto simp: withHashes_def)
    qed
  qed
  have part2: "\<exists>err. fst (CreateProofs d cd docType dataTree fieldNames) = Inl err"
    if "f \<in> set fieldNames" "fieldPrefix f \<notin> knownPrefixes dataPrefix" for f
    using generateProofsFrom_error [of f fieldNames ?tp d "[]"] that(1) unknown [OF that(2)] run
    by simp
  have part3: "fst (CreateProofs d cd docType dataTree fieldNames) = Inl PrefixTreeNotFound"
    if split: "fieldNames = before @ f # after"
      and un: "fieldPrefix f \<notin> knownPrefixes dataPrefix"
      and pre: "\<forall>g\<in>set before. \<exists>pr. fst (CreateProofs d cd docType dataTree [g]) = Inr [pr]"
    for before f after
  proof -
    have "\<forall>g\<in>set before. \<exists>t pr. ?tp (fieldPrefix g) = Some t \<and> CreateProof d (fst t) g = Inr pr"
    proof
      fix g assume "g \<in> set before"
      with pre obtain pr where "fst (CreateProofs d cd docType dataTree [g]) = Inr [pr]" by blast
      then have "generateProofsFrom d ?tp [g] [] = Inr [pr]"
        using CreateProofs_trees [OF assms, of "[g]"] by simp
      from generateProofsFrom_success [OF this]
      show "\<exists>t pr. ?tp (fieldPrefix g) = Some t \<and> CreateProof d (fst t) g = Inr pr"
        by auto
    qed
    from generateProofsFrom_unknown [of before ?tp d f after "[]"] this unknown [OF un] run split
    show ?thesis by simp
  qed
  from part1 part2 part3 show ?thesis by blast
qed

lemma CreateProofs_no_fields:
  assumes "fst (CreateProofs d cd docType dataTree []) = Inr []"
    and "getDataTreePrefix d dataTree = Inr dataPrefix"
  shows "\<exists>drTree cd1 sigTree cd2 cdTree srHash cd3.
           DocumentRootTree d cd = (Inr drTree, cd1) \<and>
           getSignatureDataTree d cd1 = (Inr sigTree, cd2) \<and>
           documentTree d cd2 docType = Inr cdTree \<and>
           GetSigningRootHash d cd2 = (Inr srHash, cd3) \<and>
           getDataTreePrefix d dataTree = Inr dataPrefix"
  using CreateProofs_success [OF assms(1)] assms(2) by auto

lemma sample_missing_proof:
  "CreateProof sampleDeps sampleDataTree ''po.missing'' = Inl (External ''field not found'')"
  by (simp add: sampleDeps_def sampleCreateProof_def sampleDataTree_def)

lemma sample_no_fields_run:
  "fst (CreateProofs sampleDeps sampleSigned [] sampleDataTree []) = Inr []"
  unfolding CreateProofs_trees [OF sample_dr_tree(1) sample_salted_signature_tree sample_cd_tree
      sample_signing_root_hash sample_data_prefix]
  by simp

lemma sample_missing_run:
  "fst (CreateProofs sampleDeps sampleSigned [] sampleDataTree [''po.missing'', ''xx.y''])
     = Inl (External ''field not found'')"
  unfolding CreateProofs_trees [OF sample_dr_tree(1) sample_salted_signature_tree sample_cd_tree
      sample_signing_root_hash sample_data_prefix]
  by (simp add: index0_Split sample_prefixes proofTrees_def newTreeProof_def name_defs
      sample_missing_proof del: Split.simps)

section \<open>The version chain\<close>

text \<open>
  Claim C7. \<^verbatim>\<open>PrepareNewVersion\<close> fails on a document root that is absent or short:
  when the document root of the predecessor does not have 32 bytes, the call returns
  the error "Document root is invalid" and no new version, whatever the collaborators,
  and the random source is not touched.
\<close>

theorem PrepareNewVersion_invalid_root:
  "length (DocumentRoot cd) \<noteq> 32 \<Longrightarrow>
   PrepareNewVersion d cd collaborators initSalts documentPrefix w = (Inl DocumentRootInvalid, w)"
  by (simp add: PrepareNewVersion_def idSize_def)

theorem PrepareNewVersion_invalid_root_witness:
  "length (DocumentRoot zeroCoreDocument) \<noteq> 32 \<and>
   PrepareNewVersion sampleDeps zeroCoreDocument [replicate 20 (CHR ''b'')] True [0, 2, 0, 0] (0::nat)
     = (Inl DocumentRootInvalid, 0)"
proof -
  have h: "length (DocumentRoot zeroCoreDocument) \<noteq> 32"
    by (simp add: zeroCoreDocument_def)
  show ?thesis
    using h PrepareNewVersion_invalid_root [OF h, of sampleDeps "[replicate 20 (CHR ''b'')]" True "[0, 2, 0, 0]" "0::nat"]
    by simp
qed

text \<open>
  Claim C4. For a predecessor with a 32-byte document root, the new version that
  \<^verbatim>\<open>PrepareNewVersion\<close> returns continues the chain: its previous version is the
  current version of the predecessor, its current version and preimage are the next
  version and preimage of the predecessor, it keeps the document identifier, and its
  previous root is the document root of the predecessor.
\<close>

theorem PrepareNewVersion_version_chain:
  assumes "length (DocumentRoot cd) = 32"
    and "PrepareNewVersion d cd collaborators initSalts documentPrefix w = (Inr ncd, w')"
  shows "PreviousVersion ncd = CurrentVersion cd \<and>
         CurrentVersion ncd = NextVersion cd \<and>
         CurrentPreimage ncd = NextPreimage cd \<and>
         DocumentIdentifier ncd = DocumentIdentifier cd \<and>
         PreviousRoot ncd = DocumentRoot cd"
proof -
  from PrepareNewVersion_success [OF assms(2)] obtain cs oldCs pre ver w1 salts where
    ncd: "ncd = (addCollaboratorsToTransitionRules (filterCollaborators d cs oldCs) documentPrefix
                   (fst (addCollaboratorsToReadSignRules d (filterCollaborators d cs oldCs)
                           (newVersionBase cd pre ver) w1)))
                \<lparr>CoredocumentSalts := salts\<rparr>"
    by blast
  show ?thesis
    unfolding ncd
    by (simp add: addCollaboratorsToTransitionRules_def addCollaboratorsToReadSignRules_eq
        newVersionBase_def zeroCoreDocument_def split: list.splits)
qed

theorem PrepareNewVersion_version_chain_witness:
  "length (DocumentRoot sampleDocument) = 32 \<and>
   (\<exists>ncd w'. PrepareNewVersion sampleDeps sampleDocument
                [replicate 20 (CHR ''A''), replicate 20 (CHR ''b'')] False [0, 2, 0, 0] (0::nat)
              = (Inr ncd, w') \<and>
      PreviousVersion ncd = [2] \<and> CurrentVersion ncd = [3] \<and> CurrentPreimage ncd = [5] \<and>
      DocumentIdentifier ncd = [1] \<and> PreviousRoot ncd = replicate 32 7)"
proof -
  have h: "length (DocumentRoot sampleDocument) = 32"
    by (simp add: sampleDocument_def zeroCoreDocument_def)
  from sample_PrepareNewVersion obtain ncd w' where
    r: "PrepareNewVersion sampleDeps sampleDocument
          [replicate 20 (CHR ''A''), replicate 20 (CHR ''b'')] False [0, 2, 0, 0] (0::nat) = (Inr ncd, w')"
    by blast
  from PrepareNewVersion_version_chain [OF h r] h r show ?thesis
    by (simp add: sampleDocument_def zeroCoreDocument_def)
qed


text \<open>
  Claim C8. For a predecessor with a 32-byte document root, the new version carries the
  NFTs and access tokens over as they are, and the roles, read rules and transition
  rules as a prefix of its own. The collaborators it adds are exactly the supplied ones
  whose lowered DID string is not that of a collaborator of the predecessor, in the
  order supplied: when there is one, they sit in one new role, named by one new read
  rule with action READ_SIGN and one new transition rule; when there is none, nothing is
  added.
\<close>

theorem PrepareNewVersion_carries_and_adds:
  assumes "length (DocumentRoot cd) = 32"
    and "PrepareNewVersion d cd collaborators initSalts documentPrefix w = (Inr ncd, w')"
  shows "Nfts ncd = Nfts cd \<and> AccessTokens ncd = AccessTokens cd \<and>
         (\<exists>cs oldCs.
            NewDIDsFromStrings d collaborators = Inr cs \<and>
            getCollaborators d cd [ACTION_READ_SIGN, ACTION_READ] = Inr oldCs \<and>
            (let ucs = filter (\<lambda>c. ToLower (DIDString d c) \<notin>
                                    (\<lambda>x. ToLower (DIDString d x)) ` set oldCs) cs
             in if ucs = []
                then Roles ncd = Roles cd \<and> ReadRules ncd = ReadRules cd \<and>
                     TransitionRules ncd = TransitionRules cd
                else \<exists>key.
                       Roles ncd = Roles cd @ [\<lparr>RoleKey = key, Collaborators = ucs, RoleNfts = []\<rparr>] \<and>
                       ReadRules ncd = ReadRules cd @
                         [\<lparr>ReadRoles = [key], ReadAction = ACTION_READ_SIGN\<rparr>] \<and>
                       TransitionRules ncd = TransitionRules cd @
                         [\<lparr>TransitionRoles = [key], MatchType = FIELD_MATCH_TYPE_PREFIX,
                           Field = documentPrefix, TransitionActionOf = TRANSITION_ACTION_EDIT\<rparr>]))"
proof -
  from PrepareNewVersion_success [OF assms(2)] obtain cs oldCs pre ver w1 salts where
    cs: "NewDIDsFromStrings d collaborators = Inr cs" and
    old: "getCollaborators d cd [ACTION_READ_SIGN, ACTION_READ] = Inr oldCs" and
    ncd: "ncd = (addCollaboratorsToTransitionRules (filterCollaborators d cs oldCs) documentPrefix
                   (fst (addCollaboratorsToReadSignRules d (filterCollaborators d cs oldCs)
                           (newVersionBase cd pre ver) w1)))
                \<lparr>CoredocumentSalts := salts\<rparr>"
    by blast
  let ?ucs = "filter (\<lambda>c. ToLower (DIDString d c) \<notin> (\<lambda>x. ToLower (DIDString d x)) ` set oldCs) cs"
  have ucs: "filterCollaborators d cs oldCs = ?ucs"
    by (rule filterCollaborators_eq)
  have carried: "Nfts ncd = Nfts cd \<and> AccessTokens ncd = AccessTokens cd"
    unfolding ncd
    by (simp add: addCollaboratorsToTransitionRules_def addCollaboratorsToReadSignRules_eq
        newVersionBase_def zeroCoreDocument_def split: list.splits)
  have rules:
    "if ?ucs = []
     then Roles ncd = Roles cd \<and> ReadRules ncd = ReadRules cd \<and>
          TransitionRules ncd = TransitionRules cd
     else \<exists>key.
            Roles ncd = Roles cd @ [\<lparr>RoleKey = key, Collaborators = ?ucs, RoleNfts = []\<rparr>] \<and>
            ReadRules ncd = ReadRules cd @ [\<lparr>ReadRoles = [key], ReadAction = ACTION_READ_SIGN\<rparr>] \<and>
            TransitionRules ncd = TransitionRules cd @
              [\<lparr>TransitionRoles = [key], MatchType = FIELD_MATCH_TYPE_PREFIX,
                Field = documentPrefix, TransitionActionOf = TRANSITION_ACTION_EDIT\<rparr>]"
  proof (cases "?ucs = []")
    case True
    then show ?thesis
      unfolding ncd ucs
      by (simp add: addCollaboratorsToTransitionRules_def addCollaboratorsToReadSignRules_eq
          newVersionBase_def zeroCoreDocument_def)
  next
    case False
    then show ?thesis
      unfolding ncd ucs
      by (simp add: addCollaboratorsToTransitionRules_def addCollaboratorsToReadSignRules_eq
          newVersionBase_def zeroCoreDocument_def)
  qed
  from carried cs old rules show ?thesis
    unfolding Let_def by blast
qed

theorem PrepareNewVersion_carries_and_adds_witness:
  "length (DocumentRoot sampleDocument) = 32 \<and>
   (\<exists>ncd w'. PrepareNewVersion sampleDeps sampleDocument
                [replicate 20 (CHR ''A''), replicate 20 (CHR ''b'')] False [0, 2, 0, 0] (0::nat)
              = (Inr ncd, w') \<and>
      Nfts ncd = [] \<and> AccessTokens ncd = [] \<and>
      (\<exists>key. Roles ncd = [sampleRole, \<lparr>RoleKey = key, Collaborators = [replicate 20 98], RoleNfts = []\<rparr>] \<and>
             ReadRules ncd = [\<lparr>ReadRoles = [[9]], ReadAction = ACTION_READ_SIGN\<rparr>,
                              \<lparr>ReadRoles = [key], ReadAction = ACTION_READ_SIGN\<rparr>] \<and>
             TransitionRules ncd =
               [\<lparr>TransitionRoles = [key], MatchType = FIELD_MATCH_TYPE_PREFIX,
                 Field = [0, 2, 0, 0], TransitionActionOf = TRANSITION_ACTION_EDIT\<rparr>]))"
proof -
  have h: "length (DocumentRoot sampleDocument) = 32"
    by (simp add: sampleDocument_def zeroCoreDocument_def)
  from sample_PrepareNewVersion obtain ncd w' where
    r: "PrepareNewVersion sampleDeps sampleDocument
          [replicate 20 (CHR ''A''), replicate 20 (CHR ''b'')] False [0, 2, 0, 0] (0::nat) = (Inr ncd, w')"
    by blast
  have ne: "replicate 20 (CHR ''b'') \<noteq> replicate 20 (CHR ''a'')"
    by (simp add: replicate_eq_replicate)
  have doc: "Nfts sampleDocument = []" "AccessTokens sampleDocument = []"
    "Roles sampleDocument = [sampleRole]" "TransitionRules sampleDocument = []"
    "ReadRules sampleDocument = [\<lparr>ReadRoles = [[9]], ReadAction = ACTION_READ_SIGN\<rparr>]"
    by (simp_all add: sampleDocument_def zeroCoreDocument_def)
  from PrepareNewVersion_carries_and_adds [OF h r]
  have "Nfts ncd = [] \<and> AccessTokens ncd = [] \<and>
      (\<exists>key. Roles ncd = [sampleRole, \<lparr>RoleKey = key, Collaborators = [replicate 20 98], RoleNfts = []\<rparr>] \<and>
             ReadRules ncd = [\<lparr>ReadRoles = [[9]], ReadAction = ACTION_READ_SIGN\<rparr>,
                              \<lparr>ReadRoles = [key], ReadAction = ACTION_READ_SIGN\<rparr>] \<and>
             TransitionRules ncd =
               [\<lparr>TransitionRoles = [key], MatchType = FIELD_MATCH_TYPE_PREFIX,
                 Field = [0, 2, 0, 0], TransitionActionOf = TRANSITION_ACTION_EDIT\<rparr>])"
    using ne
    by (simp add: sample_new_collaborators sample_old_collaborators sample_lowered doc)
  with h r show ?thesis by blast
qed

section \<open>The receiver\<close>

text \<open>
  Claim C10. When the current version is fetched and the validation of the access
  fails, \<^verbatim>\<open>GetDocument\<close> returns a nil response and a nil error: the denial is not
  reported and the document is not returned.
\<close>

theorem GetDocument_denied_is_silent:
  assumes "docSrvGetCurrentVersion srv (RequestDocumentIdentifier docReq) = Inr model"
    and "validateDocumentAccess srv docReq model requester \<noteq> None"
  shows "GetDocument srv docReq requester = (None, None)"
  using assms by (simp add: GetDocument_def errOf_def)

theorem GetDocument_denied_is_silent_witness:
  "docSrvGetCurrentVersion sampleHandler (RequestDocumentIdentifier sampleRequest) = Inr sampleModel \<and>
   validateDocumentAccess sampleHandler sampleRequest sampleModel (replicate 20 98) \<noteq> None \<and>
   GetDocument sampleHandler sampleRequest (replicate 20 98) = (None, None)"
proof -
  have h1: "docSrvGetCurrentVersion sampleHandler (RequestDocumentIdentifier sampleRequest) = Inr sampleModel"
    by (simp add: sampleHandler_def sampleRequest_def)
  have h2: "validateDocumentAccess sampleHandler sampleRequest sampleModel (replicate 20 98) \<noteq> None"
    by (simp add: validateDocumentAccess_def sampleRequest_def sampleModel_def replicate_eq_replicate)
  from GetDocument_denied_is_silent [OF h1 h2] h1 h2 show ?thesis by simp
qed

section \<open>Roots and signatures\<close>

text \<open>
  Claim C5. When the signing root does not have 32 bytes, \<^verbatim>\<open>CalculateDocumentRoot\<close>
  returns the error "signing root is invalid" and leaves the document as it is. When it
  has 32 bytes and the signatures tree is built, the result is the root of the two-leaf
  tree with prefix \<^verbatim>\<open>dr_tree\<close> whose leaves are \<^verbatim>\<open>dr_tree.signing_root\<close>, the cached
  signing root as a hashed leaf, and \<^verbatim>\<open>dr_tree.signatures_root\<close>, the root of the
  signatures tree as a hashed leaf; a root that is returned is also stored as the
  document root.
\<close>

theorem CalculateDocumentRoot_two_leaf_tree:
  "(length (SigningRoot cd) \<noteq> 32 \<longrightarrow>
      CalculateDocumentRoot d cd = (Inl SigningRootInvalid, cd)) \<and>
   (length (SigningRoot cd) = 32 \<and> getSignatureDataTree d cd = (Inr signatureTree, cd1) \<longrightarrow>
      fst (CalculateDocumentRoot d cd) =
        twoLeafTreeRoot d DRTreePrefix (signingRootLeaf (SigningRoot cd))
          (signaturesRootLeaf (RootHash d signatureTree)) \<and>
      (\<forall>root. fst (CalculateDocumentRoot d cd) = Inr root \<longrightarrow>
         DocumentRoot (snd (CalculateDocumentRoot d cd)) = root))"
proof (intro conjI impI)
  assume "length (SigningRoot cd) \<noteq> 32"
  then show "CalculateDocumentRoot d cd = (Inl SigningRootInvalid, cd)"
    by (simp add: CalculateDocumentRoot_def DocumentRootTree_def idSize_def)
next
  assume a: "length (SigningRoot cd) = 32 \<and> getSignatureDataTree d cd = (Inr signatureTree, cd1)"
  have "fst (CalculateDocumentRoot d cd) = map_sum id (RootHash d) (fst (DocumentRootTree d cd))"
    by (simp add: CalculateDocumentRoot_def Let_def split: prod.splits sum.splits)
  with DocumentRootTree_root [of cd d signatureTree cd1] a
  show "fst (CalculateDocumentRoot d cd) =
        twoLeafTreeRoot d DRTreePrefix (signingRootLeaf (SigningRoot cd))
          (signaturesRootLeaf (RootHash d signatureTree))"
    by simp
next
  show "\<forall>root. fst (CalculateDocumentRoot d cd) = Inr root \<longrightarrow>
         DocumentRoot (snd (CalculateDocumentRoot d cd)) = root"
    by (simp add: CalculateDocumentRoot_def Let_def split: prod.splits sum.splits)
qed


theorem CalculateDocumentRoot_two_leaf_tree_witness:
  "length (SigningRoot zeroCoreDocument) \<noteq> 32 \<and>
   CalculateDocumentRoot sampleDeps zeroCoreDocument = (Inl SigningRootInvalid, zeroCoreDocument) \<and>
   length (SigningRoot sampleSigned) = 32 \<and>
   (\<exists>signatureTree cd1.
      getSignatureDataTree sampleDeps sampleSigned = (Inr signatureTree, cd1) \<and>
      RootHash sampleDeps signatureTree = [1, 2]) \<and>
   fst (CalculateDocumentRoot sampleDeps sampleSigned) = Inr (replicate 32 6 @ [1, 2]) \<and>
   DocumentRoot (snd (CalculateDocumentRoot sampleDeps sampleSigned)) = replicate 32 6 @ [1, 2]"
proof -
  let ?st = sampleSignatureTree
  have h0: "length (SigningRoot zeroCoreDocument) \<noteq> 32"
    by (simp add: zeroCoreDocument_def)
  have h1: "length (SigningRoot sampleSigned) = 32"
    by (simp add: sampleSigned_def sampleDocument_def zeroCoreDocument_def)
  have sr: "SigningRoot sampleSigned = replicate 32 6"
    by (simp add: sampleSigned_def sampleDocument_def zeroCoreDocument_def)
  have rh: "RootHash sampleDeps ?st = [1, 2]"
    by (simp add: sampleDeps_def sampleSignatureTree_def)
  note t0 = CalculateDocumentRoot_two_leaf_tree [of zeroCoreDocument sampleDeps]
  note t1 = CalculateDocumentRoot_two_leaf_tree
              [of sampleSigned sampleDeps ?st "sampleSigned\<lparr>SignatureDataSalts := Some []\<rparr>"]
  from t0 h0 have a: "CalculateDocumentRoot sampleDeps zeroCoreDocument = (Inl SigningRootInvalid, zeroCoreDocument)"
    by blast
  from t1 h1 sample_signature_tree
  have b: "fst (CalculateDocumentRoot sampleDeps sampleSigned) = Inr (replicate 32 6 @ [1, 2])"
    by (simp add: sr rh sample_two_leaf_root)
  from t1 h1 sample_signature_tree b
  have c: "DocumentRoot (snd (CalculateDocumentRoot sampleDeps sampleSigned)) = replicate 32 6 @ [1, 2]"
    by blast
  from h0 a h1 sample_signature_tree rh b c show ?thesis by blast
qed

text \<open>
  Claim C1, as amended. \<^verbatim>\<open>AppendSignatures\<close> is a plain append: afterwards the
  signature data is there and holds the signatures of before followed by the appended
  ones, whether or not they were present. The signatures tree is then built from the
  longer sequence.
\<close>

theorem AppendSignatures_appends:
  "SignaturesOf (AppendSignatures signs cd) = SignaturesOf cd @ signs \<and>
   SignatureDataOf (AppendSignatures signs cd) = Some \<lparr>Signatures = SignaturesOf cd @ signs\<rparr>"
  by (cases "SignatureDataOf cd") (simp_all add: AppendSignatures_def SignaturesOf_def)

theorem AppendSignatures_appends_witness:
  "SignaturesOf (AppendSignatures [sampleSignature] sampleSigned) = [sampleSignature, sampleSignature]"
  using AppendSignatures_appends [of "[sampleSignature]" sampleSigned]
  by (simp add: SignaturesOf_def sampleSigned_def)

text \<open>
  Claim C1 as stated fails: with the sample tree builder, the signatures root of a
  document with one signature is \<open>[1, 2]\<close>, and after the same signature is appended
  again it is \<open>[1, 2, 1, 2]\<close>.
\<close>

theorem AppendSignatures_not_idempotent:
  "sampleSignature \<in> set (SignaturesOf sampleSigned) \<and>
   fst (GetSignaturesRootHash sampleDeps sampleSigned) = Inr [1, 2] \<and>
   fst (GetSignaturesRootHash sampleDeps (AppendSignatures [sampleSignature] sampleSigned))
     = Inr [1, 2, 1, 2]"
  by (simp add: GetSignaturesRootHash_def getSignatureDataTree_def setSignatureDataSalts_def
      GenerateNewSalts_def NewDefaultTreeWithPrefix_def sampleDeps_def sampleSigned_def
      sampleDocument_def zeroCoreDocument_def sampleLeaves_def sampleSignature_def
      SignaturesTreePrefix_def AppendSignatures_def SignaturesOf_def Let_def)

section \<open>Proofs across the trees\<close>

text \<open>
  Claim C6, as amended. When \<^verbatim>\<open>CreateProofs\<close> returns proofs, its trees are built and
  there is one proof for each field, in order; the proof of a field is the proof from
  the tree of its prefix with hashes appended: for the prefix of the data tree (a body
  prefix, none of \<^verbatim>\<open>cd_tree\<close> and \<^verbatim>\<open>signatures_tree\<close>) the coredoc root and then the
  signatures root; for \<^verbatim>\<open>cd_tree\<close> the data root and then the signatures root; for
  \<^verbatim>\<open>signatures_tree\<close> the signing root hash. A field whose prefix is none of the
  known ones makes \<^verbatim>\<open>CreateProofs\<close> return an error, whatever else holds; the error
  is "failed to find prefix tree in supported list" when nothing before that field
  fails: the trees build and every field before it has a proof.
\<close>

theorem CreateProofs_composition:
  "(\<forall>prfs. fst (CreateProofs d cd docType dataTree fieldNames) = Inr prfs \<longrightarrow>
      (\<exists>drTree cd1 sigTree cd2 cdTree srHash cd3 dataPrefix.
         DocumentRootTree d cd = (Inr drTree, cd1) \<and>
         getSignatureDataTree d cd1 = (Inr sigTree, cd2) \<and>
         documentTree d cd2 docType = Inr cdTree \<and>
         GetSigningRootHash d cd2 = (Inr srHash, cd3) \<and>
         getDataTreePrefix d dataTree = Inr dataPrefix \<and>
         length prfs = length fieldNames \<and>
         (\<forall>i<length fieldNames.
            (fieldPrefix (fieldNames ! i) = dataPrefix \<and> dataPrefix \<noteq> CDTreePrefix \<and>
             dataPrefix \<noteq> SignaturesTreePrefix \<longrightarrow>
               (\<exists>pr. CreateProof d dataTree (fieldNames ! i) = Inr pr \<and>
                  prfs ! i = withHashes pr [RootHash d cdTree, RootHash d sigTree])) \<and>
            (fieldPrefix (fieldNames ! i) = CDTreePrefix \<longrightarrow>
               (\<exists>pr. CreateProof d cdTree (fieldNames ! i) = Inr pr \<and>
                  prfs ! i = withHashes pr [RootHash d dataTree, RootHash d sigTree])) \<and>
            (fieldPrefix (fieldNames ! i) = SignaturesTreePrefix \<longrightarrow>
               (\<exists>pr. CreateProof d sigTree (fieldNames ! i) = Inr pr \<and>
                  prfs ! i = withHashes pr [srHash]))))) \<and>
   (\<forall>f\<in>set fieldNames.
      (\<forall>dataPrefix. getDataTreePrefix d dataTree = Inr dataPrefix \<longrightarrow>
         fieldPrefix f \<notin> knownPrefixes dataPrefix) \<longrightarrow>
      (\<exists>err. fst (CreateProofs d cd docType dataTree fieldNames) = Inl err)) \<and>
   (\<forall>before f after dataPrefix.
      fst (CreateProofs d cd docType dataTree []) = Inr [] \<and>
      getDataTreePrefix d dataTree = Inr dataPrefix \<and>
      fieldNames = before @ f # after \<and> fieldPrefix f \<notin> knownPrefixes dataPrefix \<and>
      (\<forall>g\<in>set before. \<exists>pr. fst (CreateProofs d cd docType dataTree [g]) = Inr [pr]) \<longrightarrow>
      fst (CreateProofs d cd docType dataTree fieldNames) = Inl PrefixTreeNotFound)"
proof (intro conjI allI ballI impI)
  fix prfs
  assume ok: "fst (CreateProofs d cd docType dataTree fieldNames) = Inr prfs"
  from CreateProofs_success [OF ok] obtain drTree cd1 sigTree cd2 cdTree srHash cd3 dataPrefix where
    trees: "DocumentRootTree d cd = (Inr drTree, cd1)"
      "getSignatureDataTree d cd1 = (Inr sigTree, cd2)"
      "documentTree d cd2 docType = Inr cdTree"
      "GetSigningRootHash d cd2 = (Inr srHash, cd3)"
      "getDataTreePrefix d dataTree = Inr dataPrefix"
    by blast
  from CreateProofs_with_trees [OF trees, of fieldNames] ok
  have "length prfs = length fieldNames \<and>
         (\<forall>i<length fieldNames.
            (fieldPrefix (fieldNames ! i) = dataPrefix \<and> dataPrefix \<noteq> CDTreePrefix \<and>
             dataPrefix \<noteq> SignaturesTreePrefix \<longrightarrow>
               (\<exists>pr. CreateProof d dataTree (fieldNames ! i) = Inr pr \<and>
                  prfs ! i = withHashes pr [RootHash d cdTree, RootHash d sigTree])) \<and>
            (fieldPrefix (fieldNames ! i) = CDTreePrefix \<longrightarrow>
               (\<exists>pr. CreateProof d cdTree (fieldNames ! i) = Inr pr \<and>
                  prfs ! i = withHashes pr [RootHash d dataTree, RootHash d sigTree])) \<and>
            (fieldPrefix (fieldNames ! i) = SignaturesTreePrefix \<longrightarrow>
               (\<exists>pr. CreateProof d sigTree (fieldNames ! i) = Inr pr \<and>
                  prfs ! i = withHashes pr [srHash])))"
    by blast
  with trees show "\<exists>drTree cd1 sigTree cd2 cdTree srHash cd3 dataPrefix.
         DocumentRootTree d cd = (Inr drTree, cd1) \<and>
         getSignatureDataTree d cd1 = (Inr sigTree, cd2) \<and>
         documentTree d cd2 docType = Inr cdTree \<and>
         GetSigningRootHash d cd2 = (Inr srHash, cd3) \<and>
         getDataTreePrefix d dataTree = Inr dataPrefix \<and>
         length prfs = length fieldNames \<and>
         (\<forall>i<length fieldNames.
            (fieldPrefix (fieldNames ! i) = dataPrefix \<and> dataPrefix \<noteq> CDTreePrefix \<and>
             dataPrefix \<noteq> SignaturesTreePrefix \<longrightarrow>
               (\<exists>pr. CreateProof d dataTree (fieldNames ! i) = Inr pr \<and>
                  prfs ! i = withHashes pr [RootHash d cdTree, RootHash d sigTree])) \<and>
            (fieldPrefix (fieldNames ! i) = CDTreePrefix \<longrightarrow>
               (\<exists>pr. CreateProof d cdTree (fieldNames ! i) = Inr pr \<and>
                  prfs ! i = withHashes pr [RootHash d dataTree, RootHash d sigTree])) \<and>
            (fieldPrefix (fieldNames ! i) = SignaturesTreePrefix \<longrightarrow>
               (\<exists>pr. CreateProof d sigTree (fieldNames ! i) = Inr pr \<and>
                  prfs ! i = withHashes pr [srHash])))"
    by blast
next
  fix f
  assume f: "f \<in> set fieldNames"
    and un: "\<forall>dataPrefix. getDataTreePrefix d dataTree = Inr dataPrefix \<longrightarrow>
               fieldPrefix f \<notin> knownPrefixes dataPrefix"
  show "\<exists>err. fst (CreateProofs d cd docType dataTree fieldNames) = Inl err"
  proof (cases "fst (CreateProofs d cd docType dataTree fieldNames)")
    case (Inl err)
    then show ?thesis by blast
  next
    case (Inr prfs)
    from CreateProofs_success [OF Inr] obtain drTree cd1 sigTree cd2 cdTree srHash cd3 dataPrefix where
      trees: "DocumentRootTree d cd = (Inr drTree, cd1)"
        "getSignatureDataTree d cd1 = (Inr sigTree, cd2)"
        "documentTree d cd2 docType = Inr cdTree"
        "GetSigningRootHash d cd2 = (Inr srHash, cd3)"
        "getDataTreePrefix d dataTree = Inr dataPrefix"
      by blast
    from un trees(5) have "fieldPrefix f \<notin> knownPrefixes dataPrefix" by blast
    with CreateProofs_with_trees [OF trees, of fieldNames] f show ?thesis by blast
  qed
next
  fix before f after dataPrefix
  assume a: "fst (CreateProofs d cd docType dataTree []) = Inr [] \<and>
      getDataTreePrefix d dataTree = Inr dataPrefix \<and>
      fieldNames = before @ f # after \<and> fieldPrefix f \<notin> knownPrefixes dataPrefix \<and>
      (\<forall>g\<in>set before. \<exists>pr. fst (CreateProofs d cd docType dataTree [g]) = Inr [pr])"
  then have "fst (CreateProofs d cd docType dataTree []) = Inr []"
    "getDataTreePrefix d dataTree = Inr dataPrefix" by simp_all
  from CreateProofs_no_fields [OF this] obtain drTree cd1 sigTree cd2 cdTree srHash cd3 where
    trees: "DocumentRootTree d cd = (Inr drTree, cd1)"
      "getSignatureDataTree d cd1 = (Inr sigTree, cd2)"
      "documentTree d cd2 docType = Inr cdTree"
      "GetSigningRootHash d cd2 = (Inr srHash, cd3)"
      "getDataTreePrefix d dataTree = Inr dataPrefix"
    by blast
  from CreateProofs_with_trees [OF trees, of fieldNames] a
  show "fst (CreateProofs d cd docType dataTree fieldNames) = Inl PrefixTreeNotFound"
    by blast
qed

theorem CreateProofs_composition_witness:
  "getDataTreePrefix sampleDeps sampleDataTree = Inr ''po'' \<and>
   fst (CreateProofs sampleDeps sampleSigned [] sampleDataTree []) = Inr [] \<and>
   fst (CreateProofs sampleDeps sampleSigned [] sampleDataTree [''po.number''])
     = Inr [withHashes samplePoProof [1 # replicate 32 0, [1, 2]]] \<and>
   (\<exists>cdTree sigTree cd2 cd3.
      documentTree sampleDeps cd2 [] = Inr cdTree \<and>
      getSignatureDataTree sampleDeps cd3 = (Inr sigTree, cd2) \<and>
      [withHashes samplePoProof [1 # replicate 32 0, [1, 2]]] ! 0
        = withHashes samplePoProof [RootHash sampleDeps cdTree, RootHash sampleDeps sigTree]) \<and>
   fst (CreateProofs sampleDeps sampleSigned [] sampleDataTree [''xx.y''])
     = Inl PrefixTreeNotFound \<and>
   fst (CreateProofs sampleDeps sampleSigned [] sampleDataTree [''po.number'', ''xx.y''])
     = Inl PrefixTreeNotFound"
proof -
  have distinct: "''po'' \<noteq> CDTreePrefix" "''po'' \<noteq> SignaturesTreePrefix"
    "''xx'' \<notin> knownPrefixes ''po''"
    by (simp_all add: name_defs knownPrefixes_def)
  note t = CreateProofs_composition [of sampleDeps sampleSigned "[]" sampleDataTree]
  note t1 = t [of "[''po.number'']", THEN conjunct1, rule_format, OF sample_po_run]
  from t1 obtain drTree cd1 sigTree cd2 cdTree srHash cd3 dataPrefix where
    trees: "DocumentRootTree sampleDeps sampleSigned = (Inr drTree, cd1)"
      "getSignatureDataTree sampleDeps cd1 = (Inr sigTree, cd2)"
      "documentTree sampleDeps cd2 [] = Inr cdTree"
      "GetSigningRootHash sampleDeps cd2 = (Inr srHash, cd3)"
      "getDataTreePrefix sampleDeps sampleDataTree = Inr dataPrefix" and
    each: "\<forall>i<length [''po.number''].
            (fieldPrefix ([''po.number''] ! i) = dataPrefix \<and> dataPrefix \<noteq> CDTreePrefix \<and>
             dataPrefix \<noteq> SignaturesTreePrefix \<longrightarrow>
               (\<exists>pr. CreateProof sampleDeps sampleDataTree ([''po.number''] ! i) = Inr pr \<and>
                  [withHashes samplePoProof [1 # replicate 32 0, [1, 2]]] ! i
                    = withHashes pr [RootHash sampleDeps cdTree, RootHash sampleDeps sigTree])) \<and>
            (fieldPrefix ([''po.number''] ! i) = CDTreePrefix \<longrightarrow>
               (\<exists>pr. CreateProof sampleDeps cdTree ([''po.number''] ! i) = Inr pr \<and>
                  [withHashes samplePoProof [1 # replicate 32 0, [1, 2]]] ! i
                    = withHashes pr [RootHash sampleDeps sampleDataTree, RootHash sampleDeps sigTree])) \<and>
            (fieldPrefix ([''po.number''] ! i) = SignaturesTreePrefix \<longrightarrow>
               (\<exists>pr. CreateProof sampleDeps sigTree ([''po.number''] ! i) = Inr pr \<and>
                  [withHashes samplePoProof [1 # replicate 32 0, [1, 2]]] ! i
                    = withHashes pr [srHash]))"
    by (elim exE conjE)
  from trees(5) sample_data_prefix have dp: "dataPrefix = ''po''" by simp
  from each dp distinct sample_po_proof
  have a: "[withHashes samplePoProof [1 # replicate 32 0, [1, 2]]] ! 0
        = withHashes samplePoProof [RootHash sampleDeps cdTree, RootHash sampleDeps sigTree]"
    by (simp add: sample_prefixes)
  note stop = t [THEN conjunct2, THEN conjunct2, THEN spec, THEN spec, THEN spec, THEN spec, THEN mp]
  have "fst (CreateProofs sampleDeps sampleSigned [] sampleDataTree []) = Inr [] \<and>
        getDataTreePrefix sampleDeps sampleDataTree = Inr ''po'' \<and>
        [''xx.y''] = [] @ ''xx.y'' # [] \<and> fieldPrefix ''xx.y'' \<notin> knownPrefixes ''po'' \<and>
        (\<forall>g\<in>set []. \<exists>pr. fst (CreateProofs sampleDeps sampleSigned [] sampleDataTree [g]) = Inr [pr])"
    using distinct sample_no_fields_run sample_data_prefix by (simp add: sample_prefixes)
  from stop [OF this]
  have b: "fst (CreateProofs sampleDeps sampleSigned [] sampleDataTree [''xx.y''])
     = Inl PrefixTreeNotFound" .
  have "fst (CreateProofs sampleDeps sampleSigned [] sampleDataTree []) = Inr [] \<and>
        getDataTreePrefix sampleDeps sampleDataTree = Inr ''po'' \<and>
        [''po.number'', ''xx.y''] = [''po.number''] @ ''xx.y'' # [] \<and>
        fieldPrefix ''xx.y'' \<notin> knownPrefixes ''po'' \<and>
        (\<forall>g\<in>set [''po.number'']. \<exists>pr. fst (CreateProofs sampleDeps sampleSigned [] sampleDataTree [g]) = Inr [pr])"
    using distinct sample_no_fields_run sample_data_prefix sample_po_run
    by (simp add: sample_prefixes)
  from stop [OF this]
  have c: "fst (CreateProofs sampleDeps sampleSigned [] sampleDataTree [''po.number'', ''xx.y''])
     = Inl PrefixTreeNotFound" .
  from a trees(2,3)
  have "\<exists>cdTree sigTree cd2 cd3.
      documentTree sampleDeps cd2 [] = Inr cdTree \<and>
      getSignatureDataTree sampleDeps cd3 = (Inr sigTree, cd2) \<and>
      [withHashes samplePoProof [1 # replicate 32 0, [1, 2]]] ! 0
        = withHashes samplePoProof [RootHash sampleDeps cdTree, RootHash sampleDeps sigTree]"
    by blast
  with b c sample_data_prefix sample_no_fields_run sample_po_run show ?thesis by simp
qed

text \<open>
  Claim C6 as stated fails in its last part when a field before the one with the unknown
  prefix has no proof: for the fields \<^verbatim>\<open>po.missing\<close> and \<^verbatim>\<open>xx.y\<close>, with the trees
  built and \<^verbatim>\<open>xx\<close> not a known prefix, \<^verbatim>\<open>CreateProofs\<close> returns the error of the data
  tree for \<^verbatim>\<open>po.missing\<close>, not the error for the unknown prefix.
\<close>

theorem CreateProofs_earlier_error_first:
  "getDataTreePrefix sampleDeps sampleDataTree = Inr ''po'' \<and>
   fst (CreateProofs sampleDeps sampleSigned [] sampleDataTree []) = Inr [] \<and>
   fieldPrefix ''xx.y'' = ''xx'' \<and> ''xx'' \<notin> knownPrefixes ''po'' \<and>
   fieldPrefix ''po.missing'' = ''po'' \<and>
   CreateProof sampleDeps sampleDataTree ''po.missing'' = Inl (External ''field not found'') \<and>
   fst (CreateProofs sampleDeps sampleSigned [] sampleDataTree [''po.missing'', ''xx.y''])
     = Inl (External ''field not found'') \<and>
   External ''field not found'' \<noteq> PrefixTreeNotFound"
proof -
  have "''xx'' \<notin> knownPrefixes ''po''"
    by (simp add: name_defs knownPrefixes_def)
  with sample_data_prefix sample_no_fields_run sample_prefixes sample_missing_proof
    sample_missing_run
  show ?thesis by simp
qed

section \<open>NFTs\<close>

text \<open>
  Claim C2, as amended. For a document with a 32-byte document root, a 20-byte registry
  and a 32-byte token (and a parser of DIDs that gives no DIDs for no strings, since
  \<^verbatim>\<open>AddNFT\<close> prepares the new version with no collaborators), the new version that
  \<^verbatim>\<open>AddNFT\<close> returns holds the NFT (registry
  padded on the right to 32 bytes, token): appended to the sequence of NFTs, which
  grows by one, when the registry has no entry; in place, with the token of the entry of
  the registry replaced and the length kept, when it has one. With read access the
  version also has one new role that holds the registry and token bytes, and one new
  read rule with action READ for that role; without, the roles and read rules are those
  of the predecessor.
\<close>

theorem AddNFT_stores:
  assumes "length (DocumentRoot cd) = 32" and "length registry = 20" and "length tokenID = 32"
    and "NewDIDsFromStrings d [] = Inr []"
    and "AddNFT d cd grantReadAccess registry tokenID w = (Inr ncd, w')"
  shows "Nfts ncd = storeNFT (Nfts cd) registry tokenID \<and>
         length (Nfts ncd) =
           (if getStoredNFT (Nfts cd) registry = None then length (Nfts cd) + 1
            else length (Nfts cd)) \<and>
         (if grantReadAccess
          then \<exists>key. Roles ncd = Roles cd @
                        [\<lparr>RoleKey = key, Collaborators = [], RoleNfts = [registry @ tokenID]\<rparr>] \<and>
                     ReadRules ncd = ReadRules cd @ [\<lparr>ReadRoles = [key], ReadAction = ACTION_READ\<rparr>]
          else Roles ncd = Roles cd \<and> ReadRules ncd = ReadRules cd)"
  using assms by (rule AddNFT_fields)

theorem AddNFT_stores_witness:
  "length (DocumentRoot sampleNftDocument) = 32 \<and> length (replicate 20 (8::byte)) = 20 \<and>
   length (replicate 32 (2::byte)) = 32 \<and> NewDIDsFromStrings sampleDeps [] = Inr [] \<and>
   (\<exists>ncd w'. AddNFT sampleDeps sampleNftDocument True (replicate 20 8) (replicate 32 2) (0::nat)
                = (Inr ncd, w') \<and>
      Nfts ncd = [\<lparr>RegistryId = paddedRegistry (replicate 20 8), TokenId = replicate 32 2\<rparr>] \<and>
      (\<exists>key. Roles ncd = [sampleRole, \<lparr>RoleKey = key, Collaborators = [],
                                       RoleNfts = [replicate 20 8 @ replicate 32 2]\<rparr>] \<and>
             ReadRules ncd = [\<lparr>ReadRoles = [[9]], ReadAction = ACTION_READ_SIGN\<rparr>,
                              \<lparr>ReadRoles = [key], ReadAction = ACTION_READ\<rparr>]))"
proof -
  from sample_AddNFT obtain ncd w' where
    r: "AddNFT sampleDeps sampleNftDocument True (replicate 20 8) (replicate 32 2) (0::nat) = (Inr ncd, w')"
    by blast
  have l: "length (replicate 20 (8::byte)) = 20" "length (replicate 32 (2::byte)) = 32" by simp_all
  from AddNFT_stores [OF sample_nft_document(1) l sample_no_collaborators r]
  have "Nfts ncd = [\<lparr>RegistryId = paddedRegistry (replicate 20 8), TokenId = replicate 32 2\<rparr>] \<and>
      (\<exists>key. Roles ncd = [sampleRole, \<lparr>RoleKey = key, Collaborators = [],
                                       RoleNfts = [replicate 20 8 @ replicate 32 2]\<rparr>] \<and>
             ReadRules ncd = [\<lparr>ReadRoles = [[9]], ReadAction = ACTION_READ_SIGN\<rparr>,
                              \<lparr>ReadRoles = [key], ReadAction = ACTION_READ\<rparr>])"
    by (simp add: sample_nft_document sample_stored)
  with r l sample_nft_document(1) sample_no_collaborators show ?thesis by blast
qed

text \<open>
  Claim C2 as stated fails when the registry has an entry: the sample document has one
  NFT for the registry, and after \<^verbatim>\<open>AddNFT\<close> for the same registry with another token
  the new version has one NFT, with the new token.
\<close>

theorem AddNFT_same_registry_keeps_length:
  "length (DocumentRoot sampleNftDocument) = 32 \<and> length (replicate 20 (8::byte)) = 20 \<and>
   length (replicate 32 (2::byte)) = 32 \<and>
   Nfts sampleNftDocument =
     [\<lparr>RegistryId = paddedRegistry (replicate 20 8), TokenId = replicate 32 1\<rparr>] \<and>
   map_sum id Nfts
     (fst (AddNFT sampleDeps sampleNftDocument True (replicate 20 8) (replicate 32 2) (0::nat)))
     = Inr [\<lparr>RegistryId = paddedRegistry (replicate 20 8), TokenId = replicate 32 2\<rparr>]"
proof -
  from sample_AddNFT obtain ncd w' where
    r: "AddNFT sampleDeps sampleNftDocument True (replicate 20 8) (replicate 32 2) (0::nat) = (Inr ncd, w')"
    by blast
  have l: "length (replicate 20 (8::byte)) = 20" "length (replicate 32 (2::byte)) = 32" by simp_all
  from AddNFT_fields [OF sample_nft_document(1) l sample_no_collaborators r]
  have "Nfts ncd = [\<lparr>RegistryId = paddedRegistry (replicate 20 8), TokenId = replicate 32 2\<rparr>]"
    by (simp add: sample_nft_document sample_stored)
  with r l sample_nft_document(1,2) show ?thesis by simp
qed


text \<open>
  Claim C3, as amended. When the NFT is bound with read access in the document: a
  requester that can read the document as a collaborator is granted read, whoever owns
  the token; any other requester is granted read if and only if the token registry
  reports the requester as the owner of the token.
\<close>

theorem NFTOwnerCanRead_owner_or_collaborator:
  assumes "nftBoundWithReadAccess cd registry tokenID"
  shows "(AccountCanRead cd account \<longrightarrow>
            NFTOwnerCanRead cd registryOf registry tokenID account = None) \<and>
         (\<not> AccountCanRead cd account \<longrightarrow>
            (NFTOwnerCanRead cd registryOf registry tokenID account = None \<longleftrightarrow>
             registryOf registry tokenID = Inr account))"
  using assms
  by (auto simp: NFTOwnerCanRead_def nftBoundWithReadAccess_def split: sum.splits)

theorem NFTOwnerCanRead_owner_or_collaborator_witness:
  "nftBoundWithReadAccess sampleNftReadDocument (replicate 20 8) (replicate 32 1) \<and>
   AccountCanRead sampleNftReadDocument (replicate 20 97) \<and>
   NFTOwnerCanRead sampleNftReadDocument sampleRegistry (replicate 20 8) (replicate 32 1) (replicate 20 97) = None \<and>
   \<not> AccountCanRead sampleNftReadDocument (replicate 20 98) \<and>
   sampleRegistry (replicate 20 8) (replicate 32 1) = Inr (replicate 20 98) \<and>
   NFTOwnerCanRead sampleNftReadDocument sampleRegistry (replicate 20 8) (replicate 32 1) (replicate 20 98) = None"
proof -
  note t = NFTOwnerCanRead_owner_or_collaborator [OF sample_nft_bound, of _ sampleRegistry]
  from t [of "replicate 20 97"] sample_readers(1)
  have a: "NFTOwnerCanRead sampleNftReadDocument sampleRegistry (replicate 20 8) (replicate 32 1) (replicate 20 97) = None"
    by blast
  from t [of "replicate 20 98"] sample_readers(2) sample_owner
  have b: "NFTOwnerCanRead sampleNftReadDocument sampleRegistry (replicate 20 8) (replicate 32 1) (replicate 20 98) = None"
    by blast
  from a b sample_nft_bound sample_readers sample_owner show ?thesis by blast
qed

text \<open>
  Claim C3 as stated fails for a collaborator: the sample document binds the NFT with
  read access, the registry reports another address as the owner, and the collaborator
  is granted read.
\<close>

theorem NFTOwnerCanRead_grants_collaborator:
  "nftBoundWithReadAccess sampleNftReadDocument (replicate 20 8) (replicate 32 1) \<and>
   NFTOwnerCanRead sampleNftReadDocument sampleRegistry (replicate 20 8) (replicate 32 1) (replicate 20 97) = None \<and>
   sampleRegistry (replicate 20 8) (replicate 32 1) = Inr (replicate 20 98) \<and>
   replicate 20 98 \<noteq> replicate 20 (97::byte)"
  using sample_nft_bound sample_readers(1) sample_owner
  by (simp add: NFTOwnerCanRead_def)

section \<open>The current version\<close>

text \<open>
  Claim C9. \<^verbatim>\<open>GetCurrentVersion\<close> is a total function: it returns on every store. An
  identifier that is not stored is an error. When the stored links from the identifier
  reach a document whose next version is not stored, that last stored document is
  returned. When the links never reach such a document, which in a finite store means
  that they run into a cycle, the call fails with the error for cyclic versions.
\<close>

theorem GetCurrentVersion_walk:
  "(map_of repo documentID = None \<longrightarrow> GetCurrentVersion repo documentID = Inl DocumentNotFound) \<and>
   (\<forall>first n last.
      map_of repo documentID = Some first \<and> followLinks repo first n = Some last \<and>
      map_of repo (NextVersion last) = None \<longrightarrow>
      GetCurrentVersion repo documentID = Inr last) \<and>
   (\<forall>first.
      map_of repo documentID = Some first \<and> (\<forall>n. followLinks repo first n \<noteq> None) \<longrightarrow>
      GetCurrentVersion repo documentID = Inl CyclicVersions)"
proof (intro conjI allI impI)
  assume "map_of repo documentID = None"
  then show "GetCurrentVersion repo documentID = Inl DocumentNotFound"
    by (simp add: GetCurrentVersion_def)
next
  fix first n last
  assume a: "map_of repo documentID = Some first \<and> followLinks repo first n = Some last \<and>
      map_of repo (NextVersion last) = None"
  have "\<forall>i<n. \<forall>mi. followLinks repo first i = Some mi \<longrightarrow> NextVersion mi \<notin> set [documentID]"
  proof (intro allI impI)
    fix i mi assume mi: "followLinks repo first i = Some mi"
    have "NextVersion mi \<noteq> documentID"
    proof
      assume eq: "NextVersion mi = documentID"
      have "followLinks repo first (i + 1) = Some first"
        by (simp only: followLinks_add mi) (simp add: eq a)
      then have loop: "followLinks repo first (Suc i) = Some first" by simp
      from a have "followLinks repo first n = Some last" "map_of repo (NextVersion last) = None"
        by simp_all
      from no_loop_on_ending_chain [OF this loop] show False .
    qed
    then show "NextVersion mi \<notin> set [documentID]" by simp
  qed
  with walkVersions_ends [of repo first n last "[documentID]"] a
  show "GetCurrentVersion repo documentID = Inr last"
    by (simp add: GetCurrentVersion_def)
next
  fix first
  assume "map_of repo documentID = Some first \<and> (\<forall>n. followLinks repo first n \<noteq> None)"
  with walkVersions_endless [of repo first "[documentID]"]
  show "GetCurrentVersion repo documentID = Inl CyclicVersions"
    by (simp add: GetCurrentVersion_def)
qed

theorem GetCurrentVersion_walk_witness:
  "map_of sampleChain [9] = None \<and> GetCurrentVersion sampleChain [9] = Inl DocumentNotFound \<and>
   map_of sampleChain [1] = Some (sampleVersion [1] [2]) \<and>
   followLinks sampleChain (sampleVersion [1] [2]) 1 = Some (sampleVersion [2] [3]) \<and>
   map_of sampleChain (NextVersion (sampleVersion [2] [3])) = None \<and>
   GetCurrentVersion sampleChain [1] = Inr (sampleVersion [2] [3]) \<and>
   map_of sampleCycle [1] = Some (sampleVersion [1] [2]) \<and>
   (\<forall>n. followLinks sampleCycle (sampleVersion [1] [2]) n \<noteq> None) \<and>
   GetCurrentVersion sampleCycle [1] = Inl CyclicVersions"
proof -
  have h1: "map_of sampleChain [9] = None" by (simp add: sampleChain_def)
  have h2: "map_of sampleChain [1] = Some (sampleVersion [1] [2])"
    "followLinks sampleChain (sampleVersion [1] [2]) 1 = Some (sampleVersion [2] [3])"
    "map_of sampleChain (NextVersion (sampleVersion [2] [3])) = None"
    by (simp_all add: sampleChain_def)
  have h3: "map_of sampleCycle [1] = Some (sampleVersion [1] [2])"
    "\<forall>n. followLinks sampleCycle (sampleVersion [1] [2]) n \<noteq> None"
    using sample_cycle_endless by (simp_all add: sampleCycle_def)
  from GetCurrentVersion_walk [of sampleChain "[9]"] h1
  have a: "GetCurrentVersion sampleChain [9] = Inl DocumentNotFound" by blast
  from GetCurrentVersion_walk [of sampleChain "[1]"] h2
  have b: "GetCurrentVersion sampleChain [1] = Inr (sampleVersion [2] [3])" by blast
  from GetCurrentVersion_walk [of sampleCycle "[1]"] h3
  have c: "GetCurrentVersion sampleCycle [1] = Inl CyclicVersions" by blast
  from h1 h2 h3 a b c show ?thesis by blast
qed

end
